theory Spec2Isabelle
  imports Main
begin

unbundle bit_operations_syntax

section \<open>The TCP actors of xudd (xudd/lib/tcp.py)\<close>

text \<open>
  The module defines two actors: \<open>Server\<close> (the specification's Listener) and
  \<open>Client\<close> (the specification's Dialer). Both are Python 3 generators driven by the
  hive; every handler is modelled as a function on the actor's fields and on the part
  of the world it touches (the socket objects, the hive's outgoing messages and the
  answers of the operating system). A raised exception is the left injection,
  together with the state reached when it was raised, so that the effects performed
  before the \<open>raise\<close> stay visible.
\<close>

subsection \<open>Values, messages, exceptions\<close>

type_synonym msg_id = nat
type_synonym actor_id = string
type_synonym sock_ref = nat
type_synonym address = "string \<times> int"

text \<open>The Python values that occur in message bodies.\<close>

datatype pyval =
    PyNone
  | PyInt int
  | PyStr string
  | PyBytes string
  | PyConn sock_ref address

record message =
  to :: "actor_id option"
  directive :: string
  body :: "string \<rightharpoonup> pyval"
  in_reply_to :: "msg_id option"

datatype error =
    KeyError pyval
  | TypeError string
  | ValueError string
  | RuntimeError string
  | IndexError string
  | OverflowError string
  | OSError string
  | AttributeError string

type_synonym 's result = "(error \<times> 's) + 's"

subsection \<open>Sockets and the hive\<close>

text \<open>
  A socket object: the bytes written to it so far, whether \<open>close()\<close> has been called
  on it, and how many write calls (\<open>send\<close> or \<open>sendall\<close>) the operating system has
  served on it. Socket objects live in a store indexed by reference; \<open>accept\<close> and
  \<open>create_connection\<close> allocate the next reference, so two sockets never share a cell.
\<close>

record sock =
  written :: string
  closed :: bool
  calls :: nat

text \<open>
  What the operating system answers is not decided by the program. The answer to a
  \<open>send\<close> is the room it has for the data, or an exception (on a non-blocking socket
  \<open>BlockingIOError\<close> when the buffer is full; \<open>ConnectionResetError\<close>,
  \<open>BrokenPipeError\<close>; all of them are \<open>OSError\<close>s).
\<close>

datatype answer = Accepts nat | Raises error

text \<open>
  The answers of the operating system, as the program meets them:
  \<^item> \<open>os_resolve host\<close>: the error of resolving a host name, if any;
  \<^item> \<open>os_bind\<close> and \<open>os_listen\<close>: the error of binding an address (in use, not
    available, not permitted) and of listening on it, if any;
  \<^item> \<open>os_send r k\<close>: the answer to the \<open>k\<close>-th write call on socket \<open>r\<close>, when it is
    a \<open>send\<close>;
  \<^item> \<open>os_sendall r k\<close>: the same when the call is a \<open>sendall\<close>: \<open>None\<close> when all of
    the data is written, or the exception raised and the number of bytes that
    were written before it.
\<close>

record kernel =
  os_resolve :: "string \<Rightarrow> error option"
  os_bind :: "string \<times> int \<Rightarrow> error option"
  os_listen :: "string \<times> int \<Rightarrow> error option"
  os_send :: "sock_ref \<Rightarrow> nat \<Rightarrow> answer"
  os_sendall :: "sock_ref \<Rightarrow> nat \<Rightarrow> (error \<times> nat) option"

record world =
  sockets :: "sock_ref \<Rightarrow> sock"
  allocated :: nat
  sent :: "(msg_id \<times> message) list"
  minted :: nat
  os :: kernel

definition new_sock :: sock where
  "new_sock = \<lparr>written = [], closed = False, calls = 0\<rparr>"

definition alloc_sock :: "world \<Rightarrow> sock_ref \<times> world" where
  "alloc_sock w =
     (allocated w,
      w\<lparr>sockets := (sockets w)(allocated w := new_sock), allocated := Suc (allocated w)\<rparr>)"

text \<open>
  Modelled from the spec: \<open>Actor.send_message\<close> is defined in xudd/actor.py, which is
  not part of the sources at hand. The specification says of the scheduler that it
  provides message delivery and unique message-id generation. The message is appended
  to the hive's outgoing messages and its id is returned; the id of the \<open>k\<close>-th message
  minted by the hive is \<open>gen k\<close>, with \<open>gen\<close> a parameter.
\<close>

definition send_message ::
  "(nat \<Rightarrow> msg_id) \<Rightarrow> actor_id option \<Rightarrow> string \<Rightarrow> (string \<rightharpoonup> pyval) \<Rightarrow> world
     \<Rightarrow> msg_id \<times> world" where
  "send_message gen dest dir bdy w =
     (gen (minted w),
      w\<lparr>sent := sent w @ [(gen (minted w),
                            \<lparr>to = dest, directive = dir, body = bdy, in_reply_to = None\<rparr>)],
        minted := Suc (minted w)\<rparr>)"

text \<open>
  Modelled from the spec: \<open>Actor.wait_on_self\<close> (xudd/actor.py, not at hand) is the
  "yield to scheduler" primitive. While the actor is suspended the hive may mint
  ids for other messages; \<open>k\<close> is their number.
\<close>

definition wait_on_self :: "nat \<Rightarrow> world \<Rightarrow> world" where
  "wait_on_self k w = w\<lparr>minted := minted w + k\<rparr>"

text \<open>The name of the type of a value, and the message of a rejected argument.\<close>

definition type_name :: "pyval \<Rightarrow> string" where
  "type_name v =
     (case v of
        PyNone \<Rightarrow> ''NoneType''
      | PyInt n \<Rightarrow> ''int''
      | PyStr s \<Rightarrow> ''str''
      | PyBytes bs \<Rightarrow> ''bytes''
      | PyConn r a \<Rightarrow> ''tuple'')"

definition bytes_required :: "pyval \<Rightarrow> error" where
  "bytes_required v =
     TypeError (''a bytes-like object is required, not '' @ [CHR 0x27] @ type_name v @ [CHR 0x27])"

text \<open>
  \<open>sock.sendall(data)\<close>, with the operating system's answers to the write calls on
  this socket. It raises on an argument that is not a bytes object and on a socket
  that has been closed. Otherwise the operating system decides: all of \<open>data\<close> is
  written, or an exception is raised after part of it has been written.
\<close>

definition sendall ::
  "(nat \<Rightarrow> (error \<times> nat) option) \<Rightarrow> pyval \<Rightarrow> sock \<Rightarrow> (error \<times> sock) + sock" where
  "sendall answers v sk =
     (case v of
        PyBytes bs \<Rightarrow>
          if closed sk then Inl (OSError ''[Errno 9] Bad file descriptor'', sk)
          else (case answers (calls sk) of
                  None \<Rightarrow> Inr (sk\<lparr>written := written sk @ bs, calls := Suc (calls sk)\<rparr>)
                | Some (e, k) \<Rightarrow>
                    Inl (e, sk\<lparr>written := written sk @ take k bs, calls := Suc (calls sk)\<rparr>))
      | _ \<Rightarrow> Inl (bytes_required v, sk))"

text \<open>\<open>sock.close()\<close>: never raises, also on a socket that is closed already.\<close>

definition close_sock :: "sock \<Rightarrow> sock" where
  "close_sock sk = sk\<lparr>closed := True\<rparr>"

subsection \<open>Server\<close>

datatype server_method = Listen | Respond | Send | Close

text \<open>
  The listening socket as \<open>listen\<close> configures it: \<open>SO_REUSEADDR\<close>, the blocking mode,
  the address it is bound to, if any, and the backlog once it listens.
\<close>

record listener =
  reuseaddr :: bool
  blocking :: bool
  bound :: "(pyval \<times> pyval) option"
  backlog :: "nat option"

record server =
  message_routing :: "string \<rightharpoonup> server_method"
  requests :: "msg_id \<rightharpoonup> sock_ref \<times> address"
  request_handler :: "actor_id option"
  socket :: "listener option"

text \<open>
  \<open>Server.__init__\<close>: the routing table of the base class (\<open>inherited\<close>, from
  xudd/actor.py) is updated with the two entries of the source, \<open>'respond'\<close> and
  \<open>'listen'\<close>.
\<close>

definition Server_init :: "(string \<rightharpoonup> server_method) \<Rightarrow> actor_id option \<Rightarrow> server" where
  "Server_init inherited handler =
     \<lparr>message_routing = inherited(''respond'' \<mapsto> Respond, ''listen'' \<mapsto> Listen),
      requests = Map.empty,
      request_handler = handler,
      socket = None\<rparr>"

text \<open>\<open>body.get(key, default)\<close>\<close>

definition dict_get :: "(string \<rightharpoonup> pyval) \<Rightarrow> string \<Rightarrow> pyval \<Rightarrow> pyval" where
  "dict_get d k dflt = (case d k of None \<Rightarrow> dflt | Some v \<Rightarrow> v)"

text \<open>
  What \<open>bind\<close> makes of its argument \<open>(host, port)\<close> on an \<open>AF_INET\<close> socket, in the
  order of the checks: the host must be a string (or bytes), the port an integer
  that fits a C \<open>int\<close>, the host must resolve, and the port lie in \<open>0..65535\<close>.
\<close>

definition host_name :: "pyval \<Rightarrow> string option" where
  "host_name v = (case v of PyStr h \<Rightarrow> Some h | PyBytes h \<Rightarrow> Some h | _ \<Rightarrow> None)"

definition port_range :: error where
  "port_range = OverflowError ''bind(): port must be 0-65535.''"

definition inet_address :: "kernel \<Rightarrow> pyval \<times> pyval \<Rightarrow> error + (string \<times> int)" where
  "inet_address k addr =
     (case host_name (fst addr) of
        None \<Rightarrow> Inl (TypeError (''str, bytes or bytearray expected, not '' @ type_name (fst addr)))
      | Some h \<Rightarrow>
          (case snd addr of
             PyInt p \<Rightarrow>
               if p < - 2147483648 \<or> 2147483647 < p then Inl port_range
               else (case os_resolve k h of
                       Some e \<Rightarrow> Inl e
                     | None \<Rightarrow> if p < 0 \<or> 65535 < p then Inl port_range else Inr (h, p))
           | _ \<Rightarrow>
               Inl (TypeError ([CHR 0x27] @ type_name (snd addr) @ [CHR 0x27]
                               @ '' object cannot be interpreted as an integer''))))"

text \<open>\<open>sock.bind(addr)\<close>: the address bound, or the exception.\<close>

definition sock_bind :: "kernel \<Rightarrow> pyval \<times> pyval \<Rightarrow> error + (string \<times> int)" where
  "sock_bind k addr =
     (case inet_address k addr of
        Inl e \<Rightarrow> Inl e
      | Inr a \<Rightarrow> (case os_bind k a of Some e \<Rightarrow> Inl e | None \<Rightarrow> Inr a))"

text \<open>
  The first part of \<open>Server.listen\<close>, up to the loop: the socket is created and
  assigned to \<open>self.socket\<close>, set up, bound and put into listening mode. \<open>bind\<close> and
  \<open>listen\<close> can raise; the socket stays as far as it got.
\<close>

definition Server_listen_setup :: "message \<Rightarrow> server \<times> world \<Rightarrow> (server \<times> world) result" where
  "Server_listen_setup m st =
     (let (srv, w) = st;
          port = dict_get (body m) ''port'' (PyInt 8000);
          host = dict_get (body m) ''host'' (PyStr ''127.0.0.1'');
          s = \<lparr>reuseaddr = True, blocking = False, bound = None, backlog = None\<rparr>
      in case sock_bind (os w) (host, port) of
           Inl e \<Rightarrow> Inl (e, (srv\<lparr>socket := Some s\<rparr>, w))
         | Inr a \<Rightarrow>
             (case os_listen (os w) a of
                Some e \<Rightarrow> Inl (e, (srv\<lparr>socket := Some (s\<lparr>bound := Some (host, port)\<rparr>)\<rparr>, w))
              | None \<Rightarrow>
                  Inr (srv\<lparr>socket := Some (s\<lparr>bound := Some (host, port), backlog := Some 5\<rparr>)\<rparr>,
                       w)))"

text \<open>
  One iteration of the \<open>while True\<close> loop of \<open>Server.listen\<close>. \<open>select\<close> reports the
  listening socket readable or not: \<open>pending\<close> is the peer address of the connection
  that \<open>accept\<close> then returns, or \<open>None\<close> when nothing is readable. \<open>yielded\<close> is the
  number of ids the hive mints while the actor is suspended at the \<open>yield\<close>.
\<close>

record turn =
  pending :: "address option"
  yielded :: nat

definition listen_iter :: "(nat \<Rightarrow> msg_id) \<Rightarrow> turn \<Rightarrow> server \<times> world \<Rightarrow> server \<times> world" where
  "listen_iter gen t st =
     (let (srv, w) = st in
      case pending t of
        None \<Rightarrow> (srv, wait_on_self (yielded t) w)
      | Some addr \<Rightarrow>
          let (r, w1) = alloc_sock w;
              (message_id, w2) =
                 send_message gen (request_handler srv) ''handle_request''
                   [''request'' \<mapsto> PyConn r addr] w1
          in (srv\<lparr>requests := (requests srv)(message_id \<mapsto> (r, addr))\<rparr>,
              wait_on_self (yielded t) w2))"

text \<open>The loop never returns; its behaviour is the effect of every finite run of turns.\<close>

fun listen_loop :: "(nat \<Rightarrow> msg_id) \<Rightarrow> turn list \<Rightarrow> server \<times> world \<Rightarrow> server \<times> world" where
  "listen_loop gen [] st = st"
| "listen_loop gen (t # ts) st = listen_loop gen ts (listen_iter gen t st)"

text \<open>\<open>Server.listen\<close>: the set-up, then the loop, if the set-up has not raised.\<close>

definition Server_listen ::
  "(nat \<Rightarrow> msg_id) \<Rightarrow> message \<Rightarrow> turn list \<Rightarrow> server \<times> world
     \<Rightarrow> (server \<times> world) result" where
  "Server_listen gen m ts st =
     (case Server_listen_setup m st of
        Inl x \<Rightarrow> Inl x
      | Inr st1 \<Rightarrow> Inr (listen_loop gen ts st1))"

text \<open>
  \<open>sock, bind = self.requests.get(message.in_reply_to)\<close>: \<open>dict.get\<close> returns \<open>None\<close>
  for a key that is absent, and unpacking \<open>None\<close> raises \<open>TypeError\<close>. This is the
  failure the specification calls \<open>UnknownCorrelation\<close>.
\<close>

definition unknown_correlation :: error where
  "unknown_correlation = TypeError ''cannot unpack non-iterable NoneType object''"

definition lookup_request :: "server \<Rightarrow> message \<Rightarrow> error + (sock_ref \<times> address)" where
  "lookup_request srv m =
     (case in_reply_to m of
        None \<Rightarrow> Inl unknown_correlation
      | Some i \<Rightarrow> (case requests srv i of
                     None \<Rightarrow> Inl unknown_correlation
                   | Some req \<Rightarrow> Inr req))"

text \<open>\<open>message.body['response']\<close>\<close>

definition dict_item :: "(string \<rightharpoonup> pyval) \<Rightarrow> string \<Rightarrow> error + pyval" where
  "dict_item d k = (case d k of None \<Rightarrow> Inl (KeyError (PyStr k)) | Some v \<Rightarrow> Inr v)"

definition Server_send :: "message \<Rightarrow> server \<times> world \<Rightarrow> (server \<times> world) result" where
  "Server_send m st =
     (let (srv, w) = st in
      case lookup_request srv m of
        Inl e \<Rightarrow> Inl (e, st)
      | Inr (r, bind) \<Rightarrow>
          (case dict_item (body m) ''response'' of
             Inl e \<Rightarrow> Inl (e, st)
           | Inr v \<Rightarrow>
               (case sendall (os_sendall (os w) r) v (sockets w r) of
                  Inl (e, sk) \<Rightarrow> Inl (e, (srv, w\<lparr>sockets := (sockets w)(r := sk)\<rparr>))
                | Inr sk \<Rightarrow> Inr (srv, w\<lparr>sockets := (sockets w)(r := sk)\<rparr>))))"

definition Server_close :: "message \<Rightarrow> server \<times> world \<Rightarrow> (server \<times> world) result" where
  "Server_close m st =
     (let (srv, w) = st in
      case lookup_request srv m of
        Inl e \<Rightarrow> Inl (e, st)
      | Inr (r, bind) \<Rightarrow>
          Inr (srv, w\<lparr>sockets := (sockets w)(r := close_sock (sockets w r))\<rparr>))"

text \<open>\<open>del self.requests[key]\<close>: raises \<open>KeyError\<close> for a key that is absent.\<close>

definition dict_del ::
  "(msg_id \<rightharpoonup> sock_ref \<times> address) \<Rightarrow> msg_id option
     \<Rightarrow> error + (msg_id \<rightharpoonup> sock_ref \<times> address)" where
  "dict_del d k =
     (case k of
        None \<Rightarrow> Inl (KeyError PyNone)
      | Some i \<Rightarrow> if d i = None then Inl (KeyError (PyInt (int i))) else Inr (d(i := None)))"

definition Server_respond :: "message \<Rightarrow> server \<times> world \<Rightarrow> (server \<times> world) result" where
  "Server_respond m st =
     (let (srv, w) = st in
      case lookup_request srv m of
        Inl e \<Rightarrow> Inl (e, st)
      | Inr (r, bind) \<Rightarrow>
          (case dict_item (body m) ''response'' of
             Inl e \<Rightarrow> Inl (e, st)
           | Inr v \<Rightarrow>
               (case sendall (os_sendall (os w) r) v (sockets w r) of
                  Inl (e, sk) \<Rightarrow> Inl (e, (srv, w\<lparr>sockets := (sockets w)(r := sk)\<rparr>))
                | Inr sk \<Rightarrow>
                    (let w1 = w\<lparr>sockets := (sockets w)(r := close_sock sk)\<rparr> in
                     case dict_del (requests srv) (in_reply_to m) of
                       Inl e \<Rightarrow> Inl (e, (srv, w1))
                     | Inr d \<Rightarrow> Inr (srv\<lparr>requests := d\<rparr>, w1)))))"

subsection \<open>Client\<close>

datatype client_method = Connect | ClientSend

text \<open>
  The fields of a \<open>Client\<close>; \<open>socket_cl\<close> is the attribute \<open>self.socket\<close>, which does
  not exist before \<open>connect\<close> has assigned it. (\<open>poll_timout\<close> is the source's
  spelling.)
\<close>

record client =
  message_routing_cl :: "string \<rightharpoonup> client_method"
  poll_timout :: int
  chunk_handler :: "actor_id option"
  socket_cl :: "sock_ref option"

definition Client_init ::
  "(string \<rightharpoonup> client_method) \<Rightarrow> actor_id option \<Rightarrow> int \<Rightarrow> client" where
  "Client_init inherited handler poll_timeout =
     \<lparr>message_routing_cl = inherited(''connect'' \<mapsto> Connect, ''send'' \<mapsto> ClientSend),
      poll_timout = poll_timeout,
      chunk_handler = handler,
      socket_cl = None\<rparr>"

text \<open>
  \<open>template.format(*args, **kwargs)\<close> for templates whose replacement fields are plain
  names or numbers, as all templates of the module are: a field that is a decimal
  number indexes the positional arguments, any other field is looked up among the
  keyword arguments. The second argument of \<open>format_go\<close> is the field being read,
  if any. Fields are replaced from left to right and the first failing one raises.
\<close>

definition format_field :: "string list \<Rightarrow> (string \<rightharpoonup> string) \<Rightarrow> string \<Rightarrow> error + string" where
  "format_field args kwargs f =
     (if f \<noteq> [] \<and> list_all (\<lambda>c. c \<in> set ''0123456789'') f then
        (let i = foldl (\<lambda>a c. 10 * a + (of_char c - 48)) (0::nat) f in
         if i < length args then Inr (args ! i)
         else Inl (IndexError ''Replacement index out of range''))
      else (case kwargs f of None \<Rightarrow> Inl (KeyError (PyStr f)) | Some v \<Rightarrow> Inr v))"

fun format_go ::
  "string list \<Rightarrow> (string \<rightharpoonup> string) \<Rightarrow> string option \<Rightarrow> string \<Rightarrow> error + string" where
  "format_go args kwargs None [] = Inr []"
| "format_go args kwargs (Some f) [] = Inl (ValueError ''expected } before end of string'')"
| "format_go args kwargs None (c # cs) =
     (if c = CHR ''{'' then format_go args kwargs (Some []) cs
      else if c = CHR ''}'' then Inl (ValueError ''Single } encountered in format string'')
      else (case format_go args kwargs None cs of
              Inl e \<Rightarrow> Inl e
            | Inr rest \<Rightarrow> Inr (c # rest)))"
| "format_go args kwargs (Some f) (c # cs) =
     (if c = CHR ''}'' then
        (case format_field args kwargs f of
           Inl e \<Rightarrow> Inl e
         | Inr v \<Rightarrow> (case format_go args kwargs None cs of
                       Inl e \<Rightarrow> Inl e
                     | Inr rest \<Rightarrow> Inr (v @ rest)))
      else format_go args kwargs (Some (f @ [c])) cs)"

definition str_format :: "string \<Rightarrow> string list \<Rightarrow> (string \<rightharpoonup> string) \<Rightarrow> error + string" where
  "str_format template args kwargs = format_go args kwargs None template"

text \<open>
  The message template of \<open>Client.connect\<close>. The backslash at the end of the source
  line continues the string literal, so the indentation of the next line is part of it.
\<close>

definition connect_template :: string where
  "connect_template =
     ''{klass}.connect must be called with `host` and'' @ replicate 29 CHR '' '' @
     ''`port` arguments in the message body''"

text \<open>
  The \<open>try\<close> block at the top of \<open>Client.connect\<close>. Its handler builds the message of
  the \<open>ValueError\<close> with \<open>template.format(self.__class__.__name__)\<close>: the class name
  is passed as a positional argument. An exception raised while the message is built
  replaces the \<open>ValueError\<close>.
\<close>

definition connect_args :: "string \<Rightarrow> message \<Rightarrow> error + (pyval \<times> pyval)" where
  "connect_args klass m =
     (let handler = (case str_format connect_template [klass] Map.empty of
                       Inl e \<Rightarrow> Inl e
                     | Inr msg \<Rightarrow> Inl (ValueError msg))
      in case dict_item (body m) ''host'' of
           Inl e \<Rightarrow> handler
         | Inr host \<Rightarrow>
             (case dict_item (body m) ''port'' of
                Inl e \<Rightarrow> handler
              | Inr port \<Rightarrow> Inr (host, port)))"

text \<open>
  \<open>socket.create_connection((host, port), timeout)\<close> returns a new socket object.
  Whether the peer can be reached is the network's answer and not part of the model.
\<close>

definition create_connection :: "pyval \<times> pyval \<Rightarrow> pyval \<Rightarrow> world \<Rightarrow> sock_ref \<times> world" where
  "create_connection addr timeout w = alloc_sock w"

text \<open>The locals of \<open>connect\<close> that its loop reads.\<close>

record poll_ctx =
  chunk_size :: pyval
  socket_from_fd :: "nat \<rightharpoonup> sock_ref"

text \<open>
  \<open>connect\<close> up to its loop. \<open>default_timeout\<close> is \<open>socket.getdefaulttimeout()\<close> and
  \<open>fileno\<close> the file descriptor of the new socket.
\<close>

definition Client_connect_setup ::
  "pyval \<Rightarrow> nat \<Rightarrow> message \<Rightarrow> client \<times> world \<Rightarrow> (error \<times> client \<times> world) + ((client \<times> world) \<times> poll_ctx)" where
  "Client_connect_setup default_timeout fileno m st =
     (let (cl, w) = st in
      case connect_args ''Client'' m of
        Inl e \<Rightarrow> Inl (e, st)
      | Inr (host, port) \<Rightarrow>
          (let timeout = dict_get (body m) ''timeout'' default_timeout;
               chunk_sz = dict_get (body m) ''chunk_size'' (PyInt 1024);
               (r, w1) = create_connection (host, port) timeout w
           in Inr ((cl\<lparr>socket_cl := Some r\<rparr>, w1),
                   \<lparr>chunk_size = chunk_sz, socket_from_fd = [fileno \<mapsto> r]\<rparr>)))"

text \<open>The readiness flags of \<open>select\<close> (their values on Linux).\<close>

definition POLLIN :: nat where "POLLIN = 1"
definition POLLPRI :: nat where "POLLPRI = 2"

text \<open>
  One event reported by \<open>poller.poll\<close>: the file descriptor, the flags, and the bytes
  that are waiting on the socket at that moment; none waiting on a readable socket
  means that the peer has closed the connection.
\<close>

record event =
  fd :: nat
  flag :: nat
  waiting :: string

text \<open>\<open>sock.recv(bufsize)\<close> returns at most \<open>bufsize\<close> of the waiting bytes.\<close>

definition recv :: "pyval \<Rightarrow> string \<Rightarrow> error + string" where
  "recv bufsize bs =
     (case bufsize of
        PyInt n \<Rightarrow> if n < 0 then Inl (ValueError ''negative buffersize in recv'')
                   else Inr (take (nat n) bs)
      | _ \<Rightarrow> Inl (TypeError ''an integer is required''))"

text \<open>The body of the \<open>for fd, flag in events\<close> loop.\<close>

definition poll_event ::
  "(nat \<Rightarrow> msg_id) \<Rightarrow> client \<Rightarrow> poll_ctx \<Rightarrow> event \<Rightarrow> world \<Rightarrow> world result" where
  "poll_event gen cl ctx ev w =
     (case socket_from_fd ctx (fd ev) of
        None \<Rightarrow> Inl (KeyError (PyInt (int (fd ev))), w)
      | Some sck \<Rightarrow>
          if flag ev AND (POLLIN OR POLLPRI) \<noteq> 0 then
            if Some sck = socket_cl cl then
              (case recv (chunk_size ctx) (waiting ev) of
                 Inl e \<Rightarrow> Inl (e, w)
               | Inr chunk \<Rightarrow>
                   if chunk = [] then Inl (RuntimeError ''socket connection broken'', w)
                   else Inr (snd (send_message gen (chunk_handler cl) ''handle_chunk''
                                    [''chunk'' \<mapsto> PyBytes chunk] w)))
            else Inr w
          else Inr w)"

fun poll_events ::
  "(nat \<Rightarrow> msg_id) \<Rightarrow> client \<Rightarrow> poll_ctx \<Rightarrow> event list \<Rightarrow> world \<Rightarrow> world result" where
  "poll_events gen cl ctx [] w = Inr w"
| "poll_events gen cl ctx (ev # evs) w =
     (case poll_event gen cl ctx ev w of
        Inl x \<Rightarrow> Inl x
      | Inr w1 \<Rightarrow> poll_events gen cl ctx evs w1)"

text \<open>
  One iteration of the \<open>while True\<close> loop of \<open>connect\<close>: the events of one \<open>poll\<close>,
  then the \<open>yield\<close>.
\<close>

record poll_turn =
  events :: "event list"
  suspended :: nat

fun poll_loop ::
  "(nat \<Rightarrow> msg_id) \<Rightarrow> client \<Rightarrow> poll_ctx \<Rightarrow> poll_turn list \<Rightarrow> world \<Rightarrow> world result" where
  "poll_loop gen cl ctx [] w = Inr w"
| "poll_loop gen cl ctx (t # ts) w =
     (case poll_events gen cl ctx (events t) w of
        Inl x \<Rightarrow> Inl x
      | Inr w1 \<Rightarrow> poll_loop gen cl ctx ts (wait_on_self (suspended t) w1))"

definition Client_connect ::
  "(nat \<Rightarrow> msg_id) \<Rightarrow> pyval \<Rightarrow> nat \<Rightarrow> message \<Rightarrow> poll_turn list \<Rightarrow> client \<times> world
     \<Rightarrow> (client \<times> world) result" where
  "Client_connect gen default_timeout fileno m ts st =
     (case Client_connect_setup default_timeout fileno m st of
        Inl x \<Rightarrow> Inl x
      | Inr ((cl, w), ctx) \<Rightarrow>
          (case poll_loop gen cl ctx ts w of
             Inl (e, w1) \<Rightarrow> Inl (e, (cl, w1))
           | Inr w1 \<Rightarrow> Inr (cl, w1)))"

text \<open>
  \<open>sock.send(data)\<close>, with the operating system's answers to the write calls on this
  socket. It raises on an argument that is not a bytes object and on a socket that has
  been closed. Otherwise the operating system decides: it accepts some of the data,
  at most \<open>len(data)\<close> bytes, and \<open>send\<close> returns their number, or \<open>send\<close> raises.
\<close>

definition sock_send ::
  "(nat \<Rightarrow> answer) \<Rightarrow> pyval \<Rightarrow> sock \<Rightarrow> (error \<times> sock) + (nat \<times> sock)" where
  "sock_send answers v sk =
     (case v of
        PyBytes bs \<Rightarrow>
          if closed sk then Inl (OSError ''[Errno 9] Bad file descriptor'', sk)
          else (case answers (calls sk) of
                  Accepts room \<Rightarrow>
                    (let n = min room (length bs)
                     in Inr (n, sk\<lparr>written := written sk @ take n bs, calls := Suc (calls sk)\<rparr>))
                | Raises e \<Rightarrow> Inl (e, sk\<lparr>calls := Suc (calls sk)\<rparr>))
      | _ \<Rightarrow> Inl (bytes_required v, sk))"

text \<open>\<open>len(out)\<close> and \<open>out[total_sent:]\<close>\<close>

definition py_len :: "pyval \<Rightarrow> error + nat" where
  "py_len v =
     (case v of
        PyStr s \<Rightarrow> Inr (length s)
      | PyBytes bs \<Rightarrow> Inr (length bs)
      | PyConn r a \<Rightarrow> Inr 2
      | _ \<Rightarrow> Inl (TypeError (''object of type '' @ [CHR 0x27] @ type_name v @ [CHR 0x27]
                               @ '' has no len()'')))"

definition slice_from :: "pyval \<Rightarrow> nat \<Rightarrow> pyval" where
  "slice_from v n =
     (case v of
        PyStr s \<Rightarrow> PyStr (drop n s)
      | PyBytes bs \<Rightarrow> PyBytes (drop n bs)
      | _ \<Rightarrow> v)"

text \<open>
  The \<open>while total_sent < length\<close> loop of \<open>Client.send\<close>. An exception of
  \<open>self.socket.send\<close> ends the loop as it is; nothing catches it.
\<close>

function send_loop :: "client \<Rightarrow> pyval \<Rightarrow> nat \<Rightarrow> nat \<Rightarrow> world \<Rightarrow> world result" where
  "send_loop cl out length_out total_sent w =
     (if total_sent < length_out then
        (case socket_cl cl of
           None \<Rightarrow>
             Inl (AttributeError ([CHR 0x27] @ ''Client'' @ [CHR 0x27] @ '' object has no attribute ''
                                  @ [CHR 0x27] @ ''socket'' @ [CHR 0x27]), w)
         | Some r \<Rightarrow>
             (case sock_send (os_send (os w) r) (slice_from out total_sent) (sockets w r) of
                Inl (e, sk) \<Rightarrow> Inl (e, w\<lparr>sockets := (sockets w)(r := sk)\<rparr>)
              | Inr (n, sk) \<Rightarrow>
                  if n = 0
                  then Inl (RuntimeError ''socket connection broken'',
                            w\<lparr>sockets := (sockets w)(r := sk)\<rparr>)
                  else send_loop cl out length_out (total_sent + n)
                         (w\<lparr>sockets := (sockets w)(r := sk)\<rparr>)))
      else Inr w)"
  by pat_completeness auto
termination
  by (relation "measure (\<lambda>(cl, out, length_out, total_sent, w). length_out - total_sent)") auto

declare send_loop.simps [simp del]

definition Client_send :: "message \<Rightarrow> client \<times> world \<Rightarrow> (client \<times> world) result" where
  "Client_send m st =
     (let (cl, w) = st in
      case dict_item (body m) ''message'' of
        Inl e \<Rightarrow> Inl (e, st)
      | Inr out \<Rightarrow>
          (case py_len out of
             Inl e \<Rightarrow> Inl (e, st)
           | Inr length_out \<Rightarrow>
               (case send_loop cl out length_out 0 w of
                  Inl (e, w1) \<Rightarrow> Inl (e, (cl, w1))
                | Inr w1 \<Rightarrow> Inr (cl, w1))))"

text \<open>An answer that lets a \<open>send\<close> make progress: the operating system takes a byte at least.\<close>

definition accepts_some :: "answer \<Rightarrow> bool" where
  "accepts_some a = (case a of Accepts n \<Rightarrow> 0 < n | Raises e \<Rightarrow> False)"

subsection \<open>Delivery of messages\<close>

text \<open>
  Modelled from the spec: the hive (xudd/actor.py, not part of the sources at hand)
  delivers a message to an actor by invoking the method that \<open>message_routing\<close> holds
  for the directive of the message ("names are the contract"). The result is \<open>None\<close>
  when no method is registered under the directive; what the hive does then is not
  modelled.
\<close>

definition Server_deliver ::
  "(nat \<Rightarrow> msg_id) \<Rightarrow> turn list \<Rightarrow> message \<Rightarrow> server \<times> world
     \<Rightarrow> (server \<times> world) result option" where
  "Server_deliver gen ts m st =
     (case message_routing (fst st) (directive m) of
        None \<Rightarrow> None
      | Some Listen \<Rightarrow> Some (Server_listen gen m ts st)
      | Some Respond \<Rightarrow> Some (Server_respond m st)
      | Some Send \<Rightarrow> Some (Server_send m st)
      | Some Close \<Rightarrow> Some (Server_close m st))"

subsection \<open>Delivery of an accepted connection\<close>

text \<open>
  What it means that an entry of the hive's outgoing messages delivers an accepted
  connection: the message goes to the configured handler under the directive of the
  source, \<open>'handle_request'\<close>, its body holds the connection under \<open>'request'\<close>, and the
  table of the server \<open>srv'\<close> holds the same connection under the id of the message.
\<close>

definition delivered :: "server \<Rightarrow> server \<Rightarrow> msg_id \<times> message \<Rightarrow> bool" where
  "delivered srv srv' p =
     (to (snd p) = request_handler srv \<and> directive (snd p) = ''handle_request'' \<and>
      (case body (snd p) ''request'' of
         Some (PyConn r a) \<Rightarrow> requests srv' (fst p) = Some (r, a)
       | _ \<Rightarrow> False))"

subsection \<open>Concrete states for the examples\<close>

text \<open>
  An operating system that resolves, binds and listens without error and writes
  whatever \<open>sendall\<close> is given; a \<open>send\<close> is served two bytes at the first call on a
  socket and three at every later one.
\<close>

definition calm :: kernel where
  "calm =
     \<lparr>os_resolve = (\<lambda>h. None), os_bind = (\<lambda>a. None), os_listen = (\<lambda>a. None),
      os_send = (\<lambda>r k. if k = 0 then Accepts 2 else Accepts 3),
      os_sendall = (\<lambda>r k. None)\<rparr>"

text \<open>
  The same, except that the send buffer is full from the second \<open>send\<close> on: on the
  non-blocking socket of a client the call raises \<open>BlockingIOError\<close>.
\<close>

definition would_block :: error where
  "would_block = OSError ''[Errno 11] Resource temporarily unavailable''"

definition full_buffer :: kernel where
  "full_buffer = calm\<lparr>os_send := (\<lambda>r k. if k = 0 then Accepts 2 else Raises would_block)\<rparr>"

definition world0 :: world where
  "world0 = \<lparr>sockets = (\<lambda>r. new_sock), allocated = 0, sent = [], minted = 0, os = calm\<rparr>"

definition reply :: "msg_id \<Rightarrow> string \<Rightarrow> message" where
  "reply i bs =
     \<lparr>to = None, directive = ''respond'', body = [''response'' \<mapsto> PyBytes bs],
      in_reply_to = Some i\<rparr>"

text \<open>A server that has accepted one connection, and the same after \<open>close\<close> on it.\<close>

definition one_accepted :: "server \<times> world" where
  "one_accepted =
     listen_loop (\<lambda>k. k) [\<lparr>pending = Some (''10.0.0.7'', 4000), yielded = 1\<rparr>]
       (Server_init Map.empty (Some ''handler''), world0)"

definition one_closed :: "server \<times> world" where
  "one_closed = (case Server_close (reply 0 []) one_accepted of Inl (e, st) \<Rightarrow> st | Inr st \<Rightarrow> st)"

definition one_sent :: "server \<times> world" where
  "one_sent =
     (fst one_accepted,
      (snd one_accepted)\<lparr>sockets := (\<lambda>r. new_sock)
         (0 := \<lparr>written = ''O'', closed = False, calls = 1\<rparr>)\<rparr>)"

definition one_responded :: "server \<times> world" where
  "one_responded =
     ((fst one_accepted)\<lparr>requests := Map.empty\<rparr>,
      (snd one_accepted)\<lparr>sockets := (\<lambda>r. new_sock)
         (0 := \<lparr>written = ''OK'', closed = True, calls = 1\<rparr>)\<rparr>)"

definition one_sent_responded :: "server \<times> world" where
  "one_sent_responded =
     ((fst one_accepted)\<lparr>requests := Map.empty\<rparr>,
      (snd one_accepted)\<lparr>sockets := (\<lambda>r. new_sock)
         (0 := \<lparr>written = ''OK'', closed = True, calls = 2\<rparr>)\<rparr>)"

definition listen_msg :: message where
  "listen_msg = \<lparr>to = Some ''server'', directive = ''listen'', body = Map.empty,
                  in_reply_to = None\<rparr>"

definition two_accepts :: "turn list" where
  "two_accepts =
     [\<lparr>pending = Some (''10.0.0.7'', 4000), yielded = 1\<rparr>,
      \<lparr>pending = None, yielded = 3\<rparr>,
      \<lparr>pending = Some (''10.0.0.8'', 4001), yielded = 1\<rparr>]"

definition connect_msg :: "(string \<rightharpoonup> pyval) \<Rightarrow> message" where
  "connect_msg b = \<lparr>to = Some ''client'', directive = ''connect'', body = b, in_reply_to = None\<rparr>"

definition send_msg :: "(string \<rightharpoonup> pyval) \<Rightarrow> message" where
  "send_msg b = \<lparr>to = Some ''client'', directive = ''send'', body = b, in_reply_to = None\<rparr>"

text \<open>A client that has connected, and the world right after its \<open>connect\<close>.\<close>

definition connected :: client where
  "connected = (Client_init Map.empty (Some ''handler'') 10)\<lparr>socket_cl := Some 0\<rparr>"

definition connect_ok :: message where
  "connect_ok = connect_msg [''host'' \<mapsto> PyStr ''localhost'', ''port'' \<mapsto> PyInt 80,
                             ''chunk_size'' \<mapsto> PyInt 2]"

definition one_chunk :: world where
  "one_chunk =
     \<lparr>sockets = (\<lambda>r. new_sock), allocated = 1,
      sent = [(0, \<lparr>to = Some ''handler'', directive = ''handle_chunk'',
                    body = [''chunk'' \<mapsto> PyBytes ''da''], in_reply_to = None\<rparr>)],
      minted = 2, os = calm\<rparr>"

definition after_connect :: world where
  "after_connect =
     \<lparr>sockets = (\<lambda>r. new_sock), allocated = 1, sent = [], minted = 0, os = calm\<rparr>"

section \<open>Properties of the Server\<close>

subsection \<open>Lookups and the example states\<close>

lemma lookup_present:
  "in_reply_to m = Some i \<Longrightarrow> requests srv i = Some req \<Longrightarrow> lookup_request srv m = Inr req"
  by (simp add: lookup_request_def)

lemma lookup_absent:
  "in_reply_to m = Some i \<Longrightarrow> requests srv i = None \<Longrightarrow>
     lookup_request srv m = Inl unknown_correlation"
  by (simp add: lookup_request_def)

lemma one_accepted_srv:
  "fst one_accepted = \<lparr>message_routing = [''respond'' \<mapsto> Respond, ''listen'' \<mapsto> Listen],
      requests = [0 \<mapsto> (0, (''10.0.0.7'', 4000))],
      request_handler = Some ''handler'',
      socket = None\<rparr>"
  by (simp add: one_accepted_def listen_iter_def Server_init_def world0_def alloc_sock_def
      send_message_def wait_on_self_def)

lemma one_accepted_world:
  "snd one_accepted = \<lparr>sockets = (\<lambda>r. new_sock), allocated = 1,
      sent = [(0, \<lparr>to = Some ''handler'', directive = ''handle_request'',
                    body = [''request'' \<mapsto> PyConn 0 (''10.0.0.7'', 4000)], in_reply_to = None\<rparr>)],
      minted = 2, os = calm\<rparr>"
  by (simp add: one_accepted_def listen_iter_def Server_init_def world0_def alloc_sock_def
      send_message_def wait_on_self_def fun_upd_idem)

lemma one_accepted_eq:
  "one_accepted =
     (\<lparr>message_routing = [''respond'' \<mapsto> Respond, ''listen'' \<mapsto> Listen],
       requests = [0 \<mapsto> (0, (''10.0.0.7'', 4000))],
       request_handler = Some ''handler'',
       socket = None\<rparr>,
      \<lparr>sockets = (\<lambda>r. new_sock), allocated = 1,
       sent = [(0, \<lparr>to = Some ''handler'', directive = ''handle_request'',
                     body = [''request'' \<mapsto> PyConn 0 (''10.0.0.7'', 4000)],
                     in_reply_to = None\<rparr>)],
       minted = 2, os = calm\<rparr>)"
  using one_accepted_srv one_accepted_world by (simp add: prod_eq_iff)

lemma one_closed_eq:
  "one_closed =
     (\<lparr>message_routing = [''respond'' \<mapsto> Respond, ''listen'' \<mapsto> Listen],
       requests = [0 \<mapsto> (0, (''10.0.0.7'', 4000))],
       request_handler = Some ''handler'',
       socket = None\<rparr>,
      \<lparr>sockets = (\<lambda>r. new_sock)(0 := new_sock\<lparr>closed := True\<rparr>), allocated = 1,
       sent = [(0, \<lparr>to = Some ''handler'', directive = ''handle_request'',
                     body = [''request'' \<mapsto> PyConn 0 (''10.0.0.7'', 4000)],
                     in_reply_to = None\<rparr>)],
       minted = 2, os = calm\<rparr>)"
  by (simp add: one_closed_def one_accepted_eq Server_close_def lookup_request_def reply_def
      close_sock_def)

subsection \<open>Operations on an unknown id\<close>

text \<open>
  C10. When \<open>respond\<close>, \<open>send\<close> or \<open>close\<close> is invoked with a correlation id that is
  absent from the table, the operation fails before any socket write, socket close or
  table mutation: the exception of the failed lookup is raised, and the server and the
  world are those before the call.
\<close>

theorem absent_id_fails_unchanged:
  "in_reply_to m = Some i \<Longrightarrow> requests srv i = None \<Longrightarrow>
     Server_respond m (srv, w) = Inl (unknown_correlation, (srv, w)) \<and>
     Server_send m (srv, w) = Inl (unknown_correlation, (srv, w)) \<and>
     Server_close m (srv, w) = Inl (unknown_correlation, (srv, w))"
  by (simp add: Server_respond_def Server_send_def Server_close_def lookup_absent)

theorem absent_id_fails_unchanged_witness:
  "Server_respond (reply 5 ''OK'') (Server_init Map.empty None, world0)
     = Inl (unknown_correlation, (Server_init Map.empty None, world0)) \<and>
   Server_send (reply 5 ''OK'') (Server_init Map.empty None, world0)
     = Inl (unknown_correlation, (Server_init Map.empty None, world0)) \<and>
   Server_close (reply 5 ''OK'') (Server_init Map.empty None, world0)
     = Inl (unknown_correlation, (Server_init Map.empty None, world0))"
  using absent_id_fails_unchanged [of "reply 5 ''OK''" 5 "Server_init Map.empty None" world0]
  by (simp add: reply_def Server_init_def)

subsection \<open>close\<close>

text \<open>
  C7. For every correlation id present in the table, \<open>close\<close> closes the socket of that
  connection and does nothing else: the bytes written to the socket are the same as
  before, no message is sent, and the server, with the table entry, is unchanged.
\<close>

theorem close_keeps_entry:
  "in_reply_to m = Some i \<Longrightarrow> requests srv i = Some (r, a) \<Longrightarrow>
     Server_close m (srv, w) =
       Inr (srv, w\<lparr>sockets := (sockets w)(r := (sockets w r)\<lparr>closed := True\<rparr>)\<rparr>)"
  by (simp add: Server_close_def lookup_present close_sock_def)

theorem close_keeps_entry_witness:
  "Server_close (reply 0 []) (fst one_accepted, snd one_accepted) =
     Inr (fst one_accepted,
          (snd one_accepted)\<lparr>sockets := (sockets (snd one_accepted))
             (0 := (sockets (snd one_accepted) 0)\<lparr>closed := True\<rparr>)\<rparr>)"
  using close_keeps_entry [of "reply 0 []" 0 "fst one_accepted" 0 "(''10.0.0.7'', 4000)"
      "snd one_accepted"]
  by (simp add: reply_def one_accepted_srv)

subsection \<open>respond\<close>

text \<open>
  C2, as stated, for every id present in the table: it fails when the write fails.
  Here the socket has been closed by \<open>close\<close>, which leaves the entry in the table:
  \<open>sendall\<close> raises, nothing is written and the entry stays.
\<close>

theorem respond_closed_counterexample:
  "requests (fst one_closed) 0 = Some (0, (''10.0.0.7'', 4000)) \<and>
   Server_respond (reply 0 ''OK'') one_closed
     = Inl (OSError ''[Errno 9] Bad file descriptor'', one_closed) \<and>
   written (sockets (snd one_closed) 0) = []"
  by (simp add: one_closed_eq Server_respond_def lookup_request_def reply_def
      dict_item_def sendall_def new_sock_def)

lemma sendall_written:
  "\<not> closed sk \<Longrightarrow> answers (calls sk) = None \<Longrightarrow>
     sendall answers (PyBytes bs) sk =
       Inr (sk\<lparr>written := written sk @ bs, calls := Suc (calls sk)\<rparr>)"
  by (simp add: sendall_def)

text \<open>
  C2, amended. For every correlation id present in the table, if the write succeeds,
  that is, the socket has not been closed and the operating system writes the data
  without error, then \<open>respond\<close> writes all of the response bytes to the socket of
  that connection, closes the socket and removes the table entry; afterwards every
  \<open>respond\<close>, \<open>send\<close> or \<open>close\<close> with the same id fails with the exception of the
  failed lookup.
\<close>

theorem respond_open:
  assumes "in_reply_to m = Some i" and "requests srv i = Some (r, a)"
    and "body m ''response'' = Some (PyBytes bs)" and "\<not> closed (sockets w r)"
    and "os_sendall (os w) r (calls (sockets w r)) = None"
  shows "\<exists>st'. Server_respond m (srv, w) = Inr st' \<and>
           st' = (srv\<lparr>requests := (requests srv)(i := None)\<rparr>,
                  w\<lparr>sockets := (sockets w)(r := (sockets w r)
                        \<lparr>written := written (sockets w r) @ bs,
                         calls := Suc (calls (sockets w r)),
                         closed := True\<rparr>)\<rparr>) \<and>
           (\<forall>m'. in_reply_to m' = Some i \<longrightarrow>
                 Server_respond m' st' = Inl (unknown_correlation, st') \<and>
                 Server_send m' st' = Inl (unknown_correlation, st') \<and>
                 Server_close m' st' = Inl (unknown_correlation, st'))"
proof -
  let ?st = "(srv\<lparr>requests := (requests srv)(i := None)\<rparr>,
              w\<lparr>sockets := (sockets w)(r := (sockets w r)
                    \<lparr>written := written (sockets w r) @ bs,
                     calls := Suc (calls (sockets w r)),
                     closed := True\<rparr>)\<rparr>)"
  have run: "Server_respond m (srv, w) = Inr ?st"
    using assms
    by (simp add: Server_respond_def lookup_present dict_item_def sendall_written close_sock_def
        dict_del_def)
  have later: "Server_respond m' ?st = Inl (unknown_correlation, ?st) \<and>
               Server_send m' ?st = Inl (unknown_correlation, ?st) \<and>
               Server_close m' ?st = Inl (unknown_correlation, ?st)"
    if "in_reply_to m' = Some i" for m'
    using that
    by (simp add: Server_respond_def Server_send_def Server_close_def lookup_absent)
  from run later show ?thesis by blast
qed

theorem respond_open_witness:
  "Server_respond (reply 0 ''OK'') one_accepted = Inr one_responded \<and>
   Server_respond (reply 0 ''again'') one_responded = Inl (unknown_correlation, one_responded) \<and>
   Server_send (reply 0 ''again'') one_responded = Inl (unknown_correlation, one_responded) \<and>
   Server_close (reply 0 ''again'') one_responded = Inl (unknown_correlation, one_responded)"
proof -
  have eq: "one_responded =
      ((fst one_accepted)\<lparr>requests := (requests (fst one_accepted))(0 := None)\<rparr>,
       (snd one_accepted)\<lparr>sockets := (sockets (snd one_accepted))
          (0 := (sockets (snd one_accepted) 0)
             \<lparr>written := written (sockets (snd one_accepted) 0) @ ''OK'',
              calls := Suc (calls (sockets (snd one_accepted) 0)),
              closed := True\<rparr>)\<rparr>)"
    by (simp add: one_responded_def one_accepted_eq new_sock_def)
  have later: "in_reply_to (reply 0 ''again'') = Some 0"
    by (simp add: reply_def)
  from respond_open [of "reply 0 ''OK''" 0 "fst one_accepted" 0 "(''10.0.0.7'', 4000)" "''OK''"
      "snd one_accepted"] later
  show ?thesis
    unfolding eq by (simp add: reply_def one_accepted_eq new_sock_def calm_def)
qed

subsection \<open>send\<close>

text \<open>
  C6, as stated, for every id present in the table: it fails when the write fails.
  Here the socket has been closed by \<open>close\<close>: \<open>send\<close> raises, writes nothing, and
  the socket is not open afterwards.
\<close>

theorem send_closed_counterexample:
  "requests (fst one_closed) 0 = Some (0, (''10.0.0.7'', 4000)) \<and>
   Server_send (reply 0 ''OK'') one_closed
     = Inl (OSError ''[Errno 9] Bad file descriptor'', one_closed) \<and>
   closed (sockets (snd one_closed) 0)"
  by (simp add: one_closed_eq Server_send_def lookup_request_def reply_def
      dict_item_def sendall_def new_sock_def)

text \<open>
  C6, amended. For every correlation id present in the table, if the write succeeds
  (the socket has not been closed and the operating system writes the data without
  error), \<open>send\<close> performs the lookup and the write of \<open>respond\<close>, leaves the socket
  open and the server with its table unchanged. If the write of a \<open>respond\<close> with the
  same id that follows succeeds as well, that \<open>respond\<close> writes its bytes after those
  of \<open>send\<close>, closes the socket and removes the entry.
\<close>

theorem send_then_respond:
  assumes "in_reply_to m = Some i" and "requests srv i = Some (r, a)"
    and "body m ''response'' = Some (PyBytes bs)" and "\<not> closed (sockets w r)"
    and "in_reply_to m2 = Some i" and "body m2 ''response'' = Some (PyBytes bs2)"
    and "os_sendall (os w) r (calls (sockets w r)) = None"
    and "os_sendall (os w) r (Suc (calls (sockets w r))) = None"
  shows "\<exists>w1. Server_send m (srv, w) = Inr (srv, w1) \<and>
           w1 = w\<lparr>sockets := (sockets w)(r := (sockets w r)
                     \<lparr>written := written (sockets w r) @ bs,
                      calls := Suc (calls (sockets w r))\<rparr>)\<rparr> \<and>
           \<not> closed (sockets w1 r) \<and>
           Server_respond m2 (srv, w1) =
             Inr (srv\<lparr>requests := (requests srv)(i := None)\<rparr>,
                  w\<lparr>sockets := (sockets w)(r := (sockets w r)
                        \<lparr>written := written (sockets w r) @ bs @ bs2,
                         calls := Suc (Suc (calls (sockets w r))),
                         closed := True\<rparr>)\<rparr>)"
  using assms
  by (simp add: Server_send_def Server_respond_def lookup_present dict_item_def sendall_written
      close_sock_def dict_del_def)

theorem send_then_respond_witness:
  "Server_send (reply 0 ''O'') one_accepted = Inr one_sent \<and>
   Server_respond (reply 0 ''K'') one_sent = Inr one_sent_responded"
  using send_then_respond [of "reply 0 ''O''" 0 "fst one_accepted" 0 "(''10.0.0.7'', 4000)" "''O''"
      "snd one_accepted" "reply 0 ''K''" "''K''"]
  by (simp add: reply_def one_accepted_eq one_sent_def one_sent_responded_def new_sock_def
      calm_def numeral_2_eq_2)

subsection \<open>listen\<close>

lemma listen_iter_idle:
  "pending t = None \<Longrightarrow>
     listen_iter gen t (srv, w) = (srv, w\<lparr>minted := minted w + yielded t\<rparr>)"
  by (simp add: listen_iter_def wait_on_self_def)

lemma listen_iter_accept:
  "pending t = Some a \<Longrightarrow>
     listen_iter gen t (srv, w) =
       (srv\<lparr>requests := (requests srv)(gen (minted w) \<mapsto> (allocated w, a))\<rparr>,
        w\<lparr>sockets := (sockets w)(allocated w := new_sock),
          allocated := Suc (allocated w),
          sent := sent w @ [(gen (minted w),
                    \<lparr>to = request_handler srv, directive = ''handle_request'',
                     body = [''request'' \<mapsto> PyConn (allocated w) a], in_reply_to = None\<rparr>)],
          minted := Suc (minted w) + yielded t\<rparr>)"
  by (simp add: listen_iter_def wait_on_self_def alloc_sock_def send_message_def)

lemma listen_loop_run:
  assumes "inj gen"
  shows "\<exists>new. sent (snd (listen_loop gen ts (srv, w))) = sent w @ new \<and>
           length new = length (filter (\<lambda>t. pending t \<noteq> None) ts) \<and>
           list_all (delivered srv (fst (listen_loop gen ts (srv, w)))) new \<and>
           distinct (map fst new) \<and>
           set (map fst new) \<subseteq> gen ` {minted w ..< minted (snd (listen_loop gen ts (srv, w)))} \<and>
           minted w \<le> minted (snd (listen_loop gen ts (srv, w))) \<and>
           (\<forall>i. i \<notin> set (map fst new) \<longrightarrow>
                requests (fst (listen_loop gen ts (srv, w))) i = requests srv i) \<and>
           request_handler (fst (listen_loop gen ts (srv, w))) = request_handler srv \<and>
           socket (fst (listen_loop gen ts (srv, w))) = socket srv \<and>
           message_routing (fst (listen_loop gen ts (srv, w))) = message_routing srv"
proof (induction ts arbitrary: srv w)
  case Nil
  show ?case by simp
next
  case (Cons t ts)
  show ?case
  proof (cases "pending t")
    case None
    let ?w1 = "w\<lparr>minted := minted w + yielded t\<rparr>"
    have step: "listen_loop gen (t # ts) (srv, w) = listen_loop gen ts (srv, ?w1)"
      by (simp add: listen_iter_idle [OF None])
    from Cons.IH [of srv ?w1] obtain new where
      n: "sent (snd (listen_loop gen ts (srv, ?w1))) = sent ?w1 @ new"
        "length new = length (filter (\<lambda>t. pending t \<noteq> None) ts)"
        "list_all (delivered srv (fst (listen_loop gen ts (srv, ?w1)))) new"
        "distinct (map fst new)"
        "set (map fst new) \<subseteq> gen ` {minted ?w1 ..< minted (snd (listen_loop gen ts (srv, ?w1)))}"
        "minted ?w1 \<le> minted (snd (listen_loop gen ts (srv, ?w1)))"
        "\<forall>i. i \<notin> set (map fst new) \<longrightarrow>
                requests (fst (listen_loop gen ts (srv, ?w1))) i = requests srv i"
        "request_handler (fst (listen_loop gen ts (srv, ?w1))) = request_handler srv"
        "socket (fst (listen_loop gen ts (srv, ?w1))) = socket srv"
        "message_routing (fst (listen_loop gen ts (srv, ?w1))) = message_routing srv"
      by blast
    have sub: "gen ` {minted ?w1 ..< minted (snd (listen_loop gen ts (srv, ?w1)))}
               \<subseteq> gen ` {minted w ..< minted (snd (listen_loop gen ts (srv, ?w1)))}"
      by (rule image_mono) auto
    show ?thesis
      unfolding step
      apply (rule exI [of _ new])
      using n sub None by auto
  next
    case (Some a)
    let ?i = "gen (minted w)"
    let ?msg = "\<lparr>to = request_handler srv, directive = ''handle_request'',
                 body = [''request'' \<mapsto> PyConn (allocated w) a], in_reply_to = None\<rparr>"
    let ?srv1 = "srv\<lparr>requests := (requests srv)(?i \<mapsto> (allocated w, a))\<rparr>"
    let ?w1 = "w\<lparr>sockets := (sockets w)(allocated w := new_sock),
          allocated := Suc (allocated w),
          sent := sent w @ [(?i, ?msg)],
          minted := Suc (minted w) + yielded t\<rparr>"
    let ?R = "listen_loop gen ts (?srv1, ?w1)"
    have step: "listen_loop gen (t # ts) (srv, w) = ?R"
      by (simp add: listen_iter_accept [OF Some])
    from Cons.IH [of ?srv1 ?w1] obtain new where
      n: "sent (snd ?R) = sent ?w1 @ new"
        "length new = length (filter (\<lambda>t. pending t \<noteq> None) ts)"
        "list_all (delivered ?srv1 (fst ?R)) new"
        "distinct (map fst new)"
        "set (map fst new) \<subseteq> gen ` {minted ?w1 ..< minted (snd ?R)}"
        "minted ?w1 \<le> minted (snd ?R)"
        "\<forall>i. i \<notin> set (map fst new) \<longrightarrow> requests (fst ?R) i = requests ?srv1 i"
        "request_handler (fst ?R) = request_handler ?srv1"
        "socket (fst ?R) = socket ?srv1"
        "message_routing (fst ?R) = message_routing ?srv1"
      by blast
    have fresh: "?i \<notin> set (map fst new)"
    proof
      assume "?i \<in> set (map fst new)"
      with n(5) obtain k where "?i = gen k" "k \<in> {minted ?w1 ..< minted (snd ?R)}"
        by blast
      with assms have "minted w = k" by (simp add: inj_eq)
      with \<open>k \<in> _\<close> show False by simp
    qed
    have here: "requests (fst ?R) ?i = Some (allocated w, a)"
    proof -
      from n(7) fresh have "requests (fst ?R) ?i = requests ?srv1 ?i" by blast
      then show ?thesis by simp
    qed
    have d0: "delivered srv (fst ?R) (?i, ?msg)"
      using here by (simp add: delivered_def)
    have d1: "list_all (delivered srv (fst ?R)) new"
      using n(3) by (simp add: delivered_def list_all_iff)
    have m: "minted w \<le> minted (snd ?R)"
      using n(6) by simp
    have sub: "set (map fst ((?i, ?msg) # new)) \<subseteq> gen ` {minted w ..< minted (snd ?R)}"
    proof -
      have "?i \<in> gen ` {minted w ..< minted (snd ?R)}"
        using n(6) by auto
      moreover have "gen ` {minted ?w1 ..< minted (snd ?R)} \<subseteq> gen ` {minted w ..< minted (snd ?R)}"
        by (rule image_mono) auto
      ultimately show ?thesis using n(5) by auto
    qed
    have frame: "\<forall>j. j \<notin> set (map fst ((?i, ?msg) # new)) \<longrightarrow> requests (fst ?R) j = requests srv j"
      using n(7) by auto
    show ?thesis
      unfolding step
      apply (rule exI [of _ "(?i, ?msg) # new"])
      using n(1,2,4,8,9,10) fresh d0 d1 m sub frame Some
      by simp
  qed
qed

lemma listen_loop_socket: "socket (fst (listen_loop gen ts st)) = socket (fst st)"
proof (induction ts arbitrary: st)
  case Nil
  show ?case by simp
next
  case (Cons t ts)
  have "socket (fst (listen_iter gen t st)) = socket (fst st)"
    by (cases st; cases "pending t") (simp_all add: listen_iter_idle listen_iter_accept)
  with Cons.IH [of "listen_iter gen t st"] show ?case by simp
qed

lemma inet_address_default:
  "os_resolve k ''127.0.0.1'' = None \<Longrightarrow>
     inet_address k (PyStr ''127.0.0.1'', PyInt 8000) = Inr (''127.0.0.1'', 8000)"
  by (simp add: inet_address_def host_name_def)

text \<open>
  C9, as stated, says that \<open>listen\<close> does not fail when \<open>host\<close> or \<open>port\<close> is omitted.
  With the host omitted and the port \<open>70000\<close>, \<open>bind\<close> raises
  \<open>OverflowError('bind(): port must be 0-65535.')\<close>: the socket exists but is not
  bound, and the loop is never entered.
\<close>

theorem listen_port_counterexample:
  "body (listen_msg\<lparr>body := [''port'' \<mapsto> PyInt 70000]\<rparr>) ''host'' = None \<and>
   Server_listen (\<lambda>k. k) (listen_msg\<lparr>body := [''port'' \<mapsto> PyInt 70000]\<rparr>) two_accepts
       (Server_init Map.empty (Some ''handler''), world0)
     = Inl (port_range,
            ((Server_init Map.empty (Some ''handler''))
               \<lparr>socket := Some \<lparr>reuseaddr = True, blocking = False,
                                bound = None, backlog = None\<rparr>\<rparr>,
             world0))"
  by (simp add: Server_listen_def Server_listen_setup_def dict_get_def sock_bind_def
      inet_address_def host_name_def world0_def calm_def)

text \<open>
  C9, amended. When the message that starts the server omits \<open>host\<close> or \<open>port\<close>, the
  missing field is replaced by its default, \<open>'127.0.0.1'\<close> or \<open>8000\<close>, and \<open>listen\<close>
  binds the resulting address on a non-blocking socket with address reuse. \<open>listen\<close>
  fails exactly when \<open>bind\<close> or the socket's \<open>listen\<close> raises for that address, with
  that exception; otherwise it listens on the address with a backlog of 5 and enters
  its loop. In particular, with both fields omitted it listens on \<open>127.0.0.1:8000\<close>
  whenever the operating system accepts that address.
\<close>

theorem listen_defaults:
  assumes "host = (case body m ''host'' of None \<Rightarrow> PyStr ''127.0.0.1'' | Some h \<Rightarrow> h)"
    and "port = (case body m ''port'' of None \<Rightarrow> PyInt 8000 | Some p \<Rightarrow> p)"
  shows
    "(case sock_bind (os w) (host, port) of
        Inl e \<Rightarrow>
          Server_listen gen m ts (srv, w) =
            Inl (e, (srv\<lparr>socket := Some \<lparr>reuseaddr = True, blocking = False,
                                         bound = None, backlog = None\<rparr>\<rparr>, w))
      | Inr a \<Rightarrow>
          (case os_listen (os w) a of
             Some e \<Rightarrow>
               Server_listen gen m ts (srv, w) =
                 Inl (e, (srv\<lparr>socket := Some \<lparr>reuseaddr = True, blocking = False,
                                              bound = Some (host, port), backlog = None\<rparr>\<rparr>, w))
           | None \<Rightarrow>
               (\<exists>st'. Server_listen gen m ts (srv, w) = Inr st' \<and>
                      socket (fst st') =
                        Some \<lparr>reuseaddr = True, blocking = False,
                              bound = Some (host, port), backlog = Some 5\<rparr>))) \<and>
     (body m ''host'' = None \<and> body m ''port'' = None \<and>
      os_resolve (os w) ''127.0.0.1'' = None \<and> os_bind (os w) (''127.0.0.1'', 8000) = None \<and>
      os_listen (os w) (''127.0.0.1'', 8000) = None \<longrightarrow>
        (\<exists>st'. Server_listen gen m ts (srv, w) = Inr st' \<and>
               socket (fst st') =
                 Some \<lparr>reuseaddr = True, blocking = False,
                       bound = Some (PyStr ''127.0.0.1'', PyInt 8000), backlog = Some 5\<rparr>))"
proof -
  have hp: "dict_get (body m) ''host'' (PyStr ''127.0.0.1'') = host"
    "dict_get (body m) ''port'' (PyInt 8000) = port"
    using assms by (simp_all add: dict_get_def)
  have general: "case sock_bind (os w) (host, port) of
        Inl e \<Rightarrow>
          Server_listen gen m ts (srv, w) =
            Inl (e, (srv\<lparr>socket := Some \<lparr>reuseaddr = True, blocking = False,
                                         bound = None, backlog = None\<rparr>\<rparr>, w))
      | Inr a \<Rightarrow>
          (case os_listen (os w) a of
             Some e \<Rightarrow>
               Server_listen gen m ts (srv, w) =
                 Inl (e, (srv\<lparr>socket := Some \<lparr>reuseaddr = True, blocking = False,
                                              bound = Some (host, port), backlog = None\<rparr>\<rparr>, w))
           | None \<Rightarrow>
               (\<exists>st'. Server_listen gen m ts (srv, w) = Inr st' \<and>
                      socket (fst st') =
                        Some \<lparr>reuseaddr = True, blocking = False,
                              bound = Some (host, port), backlog = Some 5\<rparr>))"
    by (simp add: Server_listen_def Server_listen_setup_def hp listen_loop_socket
        split: sum.splits option.splits)
  have special: "\<exists>st'. Server_listen gen m ts (srv, w) = Inr st' \<and>
               socket (fst st') =
                 Some \<lparr>reuseaddr = True, blocking = False,
                       bound = Some (PyStr ''127.0.0.1'', PyInt 8000), backlog = Some 5\<rparr>"
    if "body m ''host'' = None" "body m ''port'' = None"
      "os_resolve (os w) ''127.0.0.1'' = None" "os_bind (os w) (''127.0.0.1'', 8000) = None"
      "os_listen (os w) (''127.0.0.1'', 8000) = None"
  proof -
    have "sock_bind (os w) (PyStr ''127.0.0.1'', PyInt 8000) = Inr (''127.0.0.1'', 8000)"
      using that by (simp add: sock_bind_def inet_address_default)
    with that show ?thesis
      by (simp add: Server_listen_def Server_listen_setup_def dict_get_def listen_loop_socket)
  qed
  from general special show ?thesis by blast
qed

theorem listen_defaults_witness:
  "(\<exists>st'. Server_listen (\<lambda>k. k) listen_msg two_accepts
            (Server_init Map.empty (Some ''handler''), world0) = Inr st' \<and>
          socket (fst st') =
            Some \<lparr>reuseaddr = True, blocking = False,
                  bound = Some (PyStr ''127.0.0.1'', PyInt 8000), backlog = Some 5\<rparr>)"
  using listen_defaults [where host = "PyStr ''127.0.0.1''" and port = "PyInt 8000"
      and m = listen_msg and w = world0 and gen = "\<lambda>k. k" and ts = two_accepts
      and srv = "Server_init Map.empty (Some ''handler'')"]
  by (simp add: listen_msg_def world0_def calm_def)

text \<open>
  C1. Let the accept loop of a new server run for any number of iterations, of which
  \<open>N\<close> find the listening socket readable, so that \<open>N\<close> connections are accepted (one
  per iteration at most). Provided the hive's message ids are unique (\<open>inj gen\<close>),
  exactly \<open>N\<close> messages are sent, each of them delivering one accepted connection to
  the configured handler, their ids are pairwise distinct, and the keys of the
  correlation table are exactly these ids, so that the table has exactly \<open>N\<close> entries.
  (The loop runs once \<open>listen\<close> has bound its socket.)
\<close>

theorem accept_loop_correlates:
  assumes "inj gen"
    and "Server_listen gen m ts (Server_init inherited handler, w) = Inr (srv', w')"
  shows "\<exists>new.
      sent w' = sent w @ new \<and>
      length new = length (filter (\<lambda>t. pending t \<noteq> None) ts) \<and>
      length new \<le> length ts \<and>
      list_all (delivered (Server_init inherited handler) srv') new \<and>
      distinct (map fst new) \<and>
      dom (requests srv') = set (map fst new) \<and>
      card (dom (requests srv')) = length (filter (\<lambda>t. pending t \<noteq> None) ts)"
proof -
  from assms(2) obtain srv0 where
    set_up: "Server_listen_setup m (Server_init inherited handler, w) = Inr (srv0, w)"
    and loop: "listen_loop gen ts (srv0, w) = (srv', w')"
    and empty: "requests srv0 = Map.empty"
    and handler: "request_handler srv0 = request_handler (Server_init inherited handler)"
    by (auto simp: Server_listen_def Server_listen_setup_def Server_init_def Let_def
        split: sum.splits option.splits)
  let ?R = "listen_loop gen ts (srv0, w)"
  from listen_loop_run [OF assms(1), of ts srv0 w] obtain new where
    n: "sent (snd ?R) = sent w @ new"
      "length new = length (filter (\<lambda>t. pending t \<noteq> None) ts)"
      "list_all (delivered srv0 (fst ?R)) new"
      "distinct (map fst new)"
      "\<forall>i. i \<notin> set (map fst new) \<longrightarrow> requests (fst ?R) i = requests srv0 i"
    by blast
  have del: "list_all (delivered (Server_init inherited handler) (fst ?R)) new"
    using n(3) handler by (simp add: delivered_def list_all_iff)
  have inside: "set (map fst new) \<subseteq> dom (requests (fst ?R))"
  proof
    fix i assume "i \<in> set (map fst new)"
    then obtain p where p: "p \<in> set new" "fst p = i" by auto
    with n(3) have "delivered srv0 (fst ?R) p" by (simp add: list_all_iff)
    then have "requests (fst ?R) (fst p) \<noteq> None"
      by (auto simp: delivered_def split: option.splits pyval.splits)
    with p show "i \<in> dom (requests (fst ?R))" by auto
  qed
  have outside: "dom (requests (fst ?R)) \<subseteq> set (map fst new)"
  proof
    fix i assume i: "i \<in> dom (requests (fst ?R))"
    show "i \<in> set (map fst new)"
    proof (rule ccontr)
      assume "i \<notin> set (map fst new)"
      with n(5) have "requests (fst ?R) i = requests srv0 i" by blast
      with empty i show False by auto
    qed
  qed
  from inside outside have dom: "dom (requests (fst ?R)) = set (map fst new)" by blast
  have card: "card (dom (requests (fst ?R))) = length (filter (\<lambda>t. pending t \<noteq> None) ts)"
    using dom n(2,4) distinct_card [of "map fst new"] by simp
  have le: "length new \<le> length ts"
    using n(2) by simp
  show ?thesis
    using n(1,2,4) del dom card le unfolding loop by auto
qed

lemma two_accepts_run:
  "Server_listen (\<lambda>k. k) listen_msg two_accepts
       (Server_init Map.empty (Some ''handler''), world0)
     = Inr (listen_loop (\<lambda>k. k) two_accepts
              ((Server_init Map.empty (Some ''handler''))
                 \<lparr>socket := Some \<lparr>reuseaddr = True, blocking = False,
                                  bound = Some (PyStr ''127.0.0.1'', PyInt 8000),
                                  backlog = Some 5\<rparr>\<rparr>,
               world0))"
  by (simp add: Server_listen_def Server_listen_setup_def dict_get_def sock_bind_def
      inet_address_def host_name_def listen_msg_def world0_def calm_def)

theorem accept_loop_correlates_witness:
  "length (sent (snd (listen_loop (\<lambda>k. k) two_accepts
              ((Server_init Map.empty (Some ''handler''))
                 \<lparr>socket := Some \<lparr>reuseaddr = True, blocking = False,
                                  bound = Some (PyStr ''127.0.0.1'', PyInt 8000),
                                  backlog = Some 5\<rparr>\<rparr>,
               world0)))) = 2 \<and>
   card (dom (requests (fst (listen_loop (\<lambda>k. k) two_accepts
              ((Server_init Map.empty (Some ''handler''))
                 \<lparr>socket := Some \<lparr>reuseaddr = True, blocking = False,
                                  bound = Some (PyStr ''127.0.0.1'', PyInt 8000),
                                  backlog = Some 5\<rparr>\<rparr>,
               world0))))) = 2"
proof -
  let ?R = "listen_loop (\<lambda>k. k) two_accepts
              ((Server_init Map.empty (Some ''handler''))
                 \<lparr>socket := Some \<lparr>reuseaddr = True, blocking = False,
                                  bound = Some (PyStr ''127.0.0.1'', PyInt 8000),
                                  backlog = Some 5\<rparr>\<rparr>,
               world0)"
  have run: "Server_listen (\<lambda>k. k) listen_msg two_accepts
       (Server_init Map.empty (Some ''handler''), world0) = Inr (fst ?R, snd ?R)"
    using two_accepts_run by simp
  have "inj (\<lambda>k::nat. k)" by simp
  from accept_loop_correlates [OF this run]
  show ?thesis by (auto simp: two_accepts_def world0_def)
qed

section \<open>Properties of the Client\<close>

subsection \<open>connect: the arguments\<close>

lemma connect_template_fails:
  "str_format connect_template [klass] Map.empty = Inl (KeyError (PyStr ''klass''))"
  by (simp add: str_format_def connect_template_def format_field_def)

lemma connect_args_missing:
  "body m ''host'' = None \<or> body m ''port'' = None \<Longrightarrow>
     connect_args klass m = Inl (KeyError (PyStr ''klass''))"
  by (auto simp: connect_args_def connect_template_fails dict_item_def split: option.splits)

text \<open>
  C3. For a connect message whose body lacks \<open>host\<close> or \<open>port\<close>, \<open>connect\<close> fails and
  performs no socket operation: the client and the world are those before the call.
  The exception is not the \<open>ValueError\<close> that the handler means to raise (the
  specification's \<open>InvalidArguments\<close>): formatting its message raises
  \<open>KeyError('klass')\<close>, because the class name is passed to \<open>format\<close> as a positional
  argument while the template names the field \<open>klass\<close>.
\<close>

theorem connect_missing_argument:
  "body m ''host'' = None \<or> body m ''port'' = None \<Longrightarrow>
     Client_connect gen default_timeout fileno m ts (cl, w)
       = Inl (KeyError (PyStr ''klass''), (cl, w))"
  by (simp add: Client_connect_def Client_connect_setup_def connect_args_missing)

theorem connect_missing_argument_witness:
  "Client_connect (\<lambda>k. k) PyNone 3 (connect_msg [''host'' \<mapsto> PyStr ''localhost''])
       [\<lparr>events = [\<lparr>fd = 3, flag = 1, waiting = ''data''\<rparr>], suspended = 1\<rparr>]
       (Client_init Map.empty (Some ''handler'') 10, world0)
     = Inl (KeyError (PyStr ''klass''), (Client_init Map.empty (Some ''handler'') 10, world0))"
  using connect_missing_argument [of "connect_msg [''host'' \<mapsto> PyStr ''localhost'']"
      "\<lambda>k. k" PyNone 3 _ "Client_init Map.empty (Some ''handler'') 10" world0]
  by (simp add: connect_msg_def)

subsection \<open>connect: the poll loop\<close>

lemma poll_events_append:
  "poll_events gen cl ctx (es1 @ es2) w =
     (case poll_events gen cl ctx es1 w of
        Inl x \<Rightarrow> Inl x
      | Inr w1 \<Rightarrow> poll_events gen cl ctx es2 w1)"
  by (induction es1 arbitrary: w) (auto split: sum.splits)

lemma poll_loop_append:
  "poll_loop gen cl ctx (ts1 @ ts2) w =
     (case poll_loop gen cl ctx ts1 w of
        Inl x \<Rightarrow> Inl x
      | Inr w1 \<Rightarrow> poll_loop gen cl ctx ts2 w1)"
  by (induction ts1 arbitrary: w) (auto split: sum.splits)

lemma poll_event_empty_read:
  assumes "socket_from_fd ctx (fd ev) = Some r" and "socket_cl cl = Some r"
    and "flag ev AND (POLLIN OR POLLPRI) \<noteq> 0"
    and "recv (chunk_size ctx) (waiting ev) = Inr []"
  shows "poll_event gen cl ctx ev w = Inl (RuntimeError ''socket connection broken'', w)"
  using assms by (simp add: poll_event_def)

text \<open>
  C4. Whenever the poll loop of a connected client performs a read that returns zero
  bytes, \<open>connect\<close> raises \<open>RuntimeError('socket connection broken')\<close> (the
  specification's \<open>ConnectionBroken\<close>) and the loop is over: the world is the one reached
  just before that read, so no \<open>handle_chunk\<close> message is sent for the read, for the
  remaining events of the iteration (\<open>es2\<close>) or for any later iteration (\<open>post\<close>).
\<close>

theorem empty_read_breaks:
  assumes conn: "Client_connect_setup default_timeout fileno m st = Inr ((cl, w0), ctx)"
    and earlier: "poll_loop gen cl ctx pre w0 = Inr w1"
    and before: "poll_events gen cl ctx es1 w1 = Inr w2"
    and own: "fd ev = fileno"
    and readable: "flag ev AND (POLLIN OR POLLPRI) \<noteq> 0"
    and empty: "recv (chunk_size ctx) (waiting ev) = Inr []"
  shows "Client_connect gen default_timeout fileno m
           (pre @ \<lparr>events = es1 @ ev # es2, suspended = k\<rparr> # post) st
         = Inl (RuntimeError ''socket connection broken'', (cl, w2))"
proof -
  obtain cl0 w where st: "st = (cl0, w)" by (cases st)
  from conn obtain r where r: "socket_cl cl = Some r" "socket_from_fd ctx fileno = Some r"
    by (auto simp: st Client_connect_setup_def create_connection_def alloc_sock_def Let_def
        split: sum.splits prod.splits)
  have ev: "poll_event gen cl ctx ev w2 = Inl (RuntimeError ''socket connection broken'', w2)"
    using r own readable empty by (simp add: poll_event_empty_read)
  have evs: "poll_events gen cl ctx (es1 @ ev # es2) w2' = Inl (RuntimeError ''socket connection broken'', w2)"
    if "w2' = w1" for w2'
    using that before ev by (simp add: poll_events_append)
  have "poll_loop gen cl ctx (pre @ \<lparr>events = es1 @ ev # es2, suspended = k\<rparr> # post) w0
          = Inl (RuntimeError ''socket connection broken'', w2)"
    using earlier evs by (simp add: poll_loop_append)
  with conn show ?thesis
    by (simp add: Client_connect_def)
qed

theorem empty_read_breaks_witness:
  "Client_connect (\<lambda>k. k) PyNone 3 connect_ok
     [\<lparr>events = [\<lparr>fd = 3, flag = 1, waiting = ''data''\<rparr>], suspended = 1\<rparr>,
      \<lparr>events = [\<lparr>fd = 3, flag = 16, waiting = ''x''\<rparr>,
                 \<lparr>fd = 3, flag = 1, waiting = []\<rparr>,
                 \<lparr>fd = 3, flag = 1, waiting = ''more''\<rparr>], suspended = 1\<rparr>,
      \<lparr>events = [\<lparr>fd = 3, flag = 1, waiting = ''late''\<rparr>], suspended = 1\<rparr>]
     (Client_init Map.empty (Some ''handler'') 10, world0)
   = Inl (RuntimeError ''socket connection broken'', (connected, one_chunk))"
proof -
  let ?ctx = "\<lparr>chunk_size = PyInt 2, socket_from_fd = [3 \<mapsto> 0]\<rparr>"
  let ?w0 = "\<lparr>sockets = (\<lambda>r. new_sock), allocated = 1, sent = [], minted = 0, os = calm\<rparr>"
  let ?ev = "\<lparr>fd = 3, flag = 1, waiting = []\<rparr>"
  have a: "Client_connect_setup PyNone 3 connect_ok
             (Client_init Map.empty (Some ''handler'') 10, world0)
           = Inr ((connected, ?w0), ?ctx)"
    by (simp add: Client_connect_setup_def connect_args_def dict_item_def dict_get_def
        connect_ok_def connect_msg_def create_connection_def alloc_sock_def world0_def
        connected_def fun_upd_idem)
  have b: "poll_loop (\<lambda>k. k) connected ?ctx
             [\<lparr>events = [\<lparr>fd = 3, flag = 1, waiting = ''data''\<rparr>], suspended = 1\<rparr>] ?w0
           = Inr one_chunk"
    by (simp add: poll_event_def recv_def POLLIN_def POLLPRI_def send_message_def
        wait_on_self_def connected_def one_chunk_def Client_init_def)
  have c: "poll_events (\<lambda>k. k) connected ?ctx [\<lparr>fd = 3, flag = 16, waiting = ''x''\<rparr>] one_chunk
           = Inr one_chunk"
    by (simp add: poll_event_def POLLIN_def POLLPRI_def)
  have d: "fd ?ev = 3" by simp
  have e: "flag ?ev AND (POLLIN OR POLLPRI) \<noteq> 0"
    by (simp add: POLLIN_def POLLPRI_def)
  have f: "recv (chunk_size ?ctx) (waiting ?ev) = Inr []"
    by (simp add: recv_def)
  from empty_read_breaks [OF a b c d e f,
      of "[\<lparr>fd = 3, flag = 1, waiting = ''more''\<rparr>]" 1
         "[\<lparr>events = [\<lparr>fd = 3, flag = 1, waiting = ''late''\<rparr>], suspended = 1\<rparr>]"]
  show ?thesis by simp
qed

subsection \<open>send\<close>

lemma sock_send_accepts:
  "\<not> closed sk \<Longrightarrow> answers (calls sk) = Accepts room \<Longrightarrow>
     sock_send answers (PyBytes bs) sk =
       Inr (min room (length bs),
            sk\<lparr>written := written sk @ take (min room (length bs)) bs,
               calls := Suc (calls sk)\<rparr>)"
  by (simp add: sock_send_def Let_def)

lemma sock_send_raises:
  "\<not> closed sk \<Longrightarrow> answers (calls sk) = Raises e \<Longrightarrow>
     sock_send answers (PyBytes bs) sk = Inl (e, sk\<lparr>calls := Suc (calls sk)\<rparr>)"
  by (simp add: sock_send_def)

lemma send_loop_done:
  "\<not> sofar < lmt \<Longrightarrow> send_loop cl out lmt sofar w = Inr w"
  by (subst send_loop.simps) simp

lemma send_loop_zero:
  assumes "sofar < length bs" and "socket_cl cl = Some r" and "\<not> closed (sockets w r)"
    and "os_send (os w) r (calls (sockets w r)) = Accepts 0"
  shows "send_loop cl (PyBytes bs) (length bs) sofar w =
           Inl (RuntimeError ''socket connection broken'',
                w\<lparr>sockets := (sockets w)(r := (sockets w r)\<lparr>calls := Suc (calls (sockets w r))\<rparr>)\<rparr>)"
  using assms
  by (subst send_loop.simps) (simp add: slice_from_def sock_send_accepts)

lemma send_loop_raises:
  assumes "sofar < length bs" and "socket_cl cl = Some r" and "\<not> closed (sockets w r)"
    and "os_send (os w) r (calls (sockets w r)) = Raises e"
  shows "send_loop cl (PyBytes bs) (length bs) sofar w =
           Inl (e, w\<lparr>sockets := (sockets w)(r := (sockets w r)\<lparr>calls := Suc (calls (sockets w r))\<rparr>)\<rparr>)"
  using assms
  by (subst send_loop.simps) (simp add: slice_from_def sock_send_raises)

lemma send_loop_step:
  assumes "sofar < length bs" and "socket_cl cl = Some r" and "\<not> closed (sockets w r)"
    and "os_send (os w) r (calls (sockets w r)) = Accepts room" and "0 < room"
  shows "send_loop cl (PyBytes bs) (length bs) sofar w =
           send_loop cl (PyBytes bs) (length bs)
             (sofar + min room (length bs - sofar))
             (w\<lparr>sockets := (sockets w)(r := (sockets w r)
                  \<lparr>written := written (sockets w r)
                       @ take (min room (length bs - sofar)) (drop sofar bs),
                   calls := Suc (calls (sockets w r))\<rparr>)\<rparr>)"
proof -
  have nz: "(min room (length bs - sofar) = 0) = False"
    using assms by (simp add: min_def)
  show ?thesis
    by (subst send_loop.simps) (simp add: assms(1-4) slice_from_def sock_send_accepts nz)
qed

text \<open>
  The loop from \<open>sofar\<close> accepted bytes on. Either it returns: then the rest of the
  payload has been written, by writes that each accepted something. Or it raises,
  with less than the rest written: at the first write that accepts nothing, the
  \<open>RuntimeError\<close> of the loop, or the exception of the first write that raises.
\<close>

lemma send_loop_spec:
  assumes "socket_cl cl = Some r"
  shows "\<not> closed (sockets w r) \<Longrightarrow> sofar \<le> length bs \<Longrightarrow>
     (case send_loop cl (PyBytes bs) (length bs) sofar w of
        Inr w' \<Rightarrow>
          written (sockets w' r) = written (sockets w r) @ drop sofar bs \<and>
          calls (sockets w r) \<le> calls (sockets w' r) \<and>
          list_all (\<lambda>k. accepts_some (os_send (os w) r k))
            [calls (sockets w r) ..< calls (sockets w' r)]
      | Inl (e, w') \<Rightarrow>
          calls (sockets w r) < calls (sockets w' r) \<and>
          list_all (\<lambda>k. accepts_some (os_send (os w) r k))
            [calls (sockets w r) ..< calls (sockets w' r) - 1] \<and>
          (case os_send (os w) r (calls (sockets w' r) - 1) of
             Accepts n \<Rightarrow> n = 0 \<and> e = RuntimeError ''socket connection broken''
           | Raises e' \<Rightarrow> e = e') \<and>
          (\<exists>k. sofar + k < length bs \<and>
               written (sockets w' r) = written (sockets w r) @ take k (drop sofar bs)))"
proof (induction "length bs - sofar" arbitrary: sofar w rule: less_induct)
  case less
  show ?case
  proof (cases "sofar < length bs")
    case False
    with less.prems show ?thesis by (simp add: send_loop_done)
  next
    case True
    let ?c = "calls (sockets w r)"
    show ?thesis
    proof (cases "os_send (os w) r ?c")
      case (Raises e)
      have "send_loop cl (PyBytes bs) (length bs) sofar w =
              Inl (e, w\<lparr>sockets := (sockets w)(r := (sockets w r)\<lparr>calls := Suc ?c\<rparr>)\<rparr>)"
        using True assms less.prems(1) Raises by (rule send_loop_raises)
      then show ?thesis using True Raises by (simp add: exI [of _ 0])
    next
      case (Accepts room)
      show ?thesis
      proof (cases "room = 0")
        case zero: True
        have "send_loop cl (PyBytes bs) (length bs) sofar w =
                Inl (RuntimeError ''socket connection broken'',
                     w\<lparr>sockets := (sockets w)(r := (sockets w r)\<lparr>calls := Suc ?c\<rparr>)\<rparr>)"
          using True assms less.prems(1) Accepts zero by (simp add: send_loop_zero)
        then show ?thesis using True Accepts zero by (simp add: exI [of _ 0])
      next
        case False
        let ?n = "min room (length bs - sofar)"
        let ?sk = "(sockets w r)\<lparr>written := written (sockets w r) @ take ?n (drop sofar bs),
                     calls := Suc ?c\<rparr>"
        let ?w1 = "w\<lparr>sockets := (sockets w)(r := ?sk)\<rparr>"
        have pos: "0 < room" using False by simp
        have some: "accepts_some (os_send (os w) r ?c)"
          using Accepts pos by (simp add: accepts_some_def)
        have n: "0 < ?n" "?n \<le> length bs - sofar" using pos True by simp_all
        have step: "send_loop cl (PyBytes bs) (length bs) sofar w =
                    send_loop cl (PyBytes bs) (length bs) (sofar + ?n) ?w1"
          using True assms less.prems(1) Accepts pos by (rule send_loop_step)
        have smaller: "length bs - (sofar + ?n) < length bs - sofar"
          using n True by linarith
        have open1: "\<not> closed (sockets ?w1 r)" using less.prems(1) by simp
        have le1: "sofar + ?n \<le> length bs" using n True by linarith
        note IH = less.hyps [OF smaller open1 le1]
        have w1: "written (sockets ?w1 r) = written (sockets w r) @ take ?n (drop sofar bs)"
          "calls (sockets ?w1 r) = Suc ?c" "os ?w1 = os w" by simp_all
        have rest: "drop ?n (drop sofar bs) = drop (sofar + ?n) bs"
          by (simp add: add.commute)
        show ?thesis
        proof (cases "send_loop cl (PyBytes bs) (length bs) (sofar + ?n) ?w1")
          case (Inr w')
          with IH have r: "written (sockets w' r) = written (sockets ?w1 r) @ drop (sofar + ?n) bs"
            "calls (sockets ?w1 r) \<le> calls (sockets w' r)"
            "list_all (\<lambda>k. accepts_some (os_send (os ?w1) r k))
               [calls (sockets ?w1 r) ..< calls (sockets w' r)]"
            by simp_all
          have "written (sockets w' r) = written (sockets w r) @ drop sofar bs"
          proof -
            have "take ?n (drop sofar bs) @ drop ?n (drop sofar bs) = drop sofar bs"
              by (rule append_take_drop_id)
            with r(1) w1(1) rest show ?thesis by simp
          qed
          moreover have "?c \<le> calls (sockets w' r)" using r(2) w1(2) by simp
          moreover have "list_all (\<lambda>k. accepts_some (os_send (os w) r k))
                           [?c ..< calls (sockets w' r)]"
          proof -
            have "[?c ..< calls (sockets w' r)] = ?c # [Suc ?c ..< calls (sockets w' r)]"
              using r(2) w1(2) by (simp add: upt_conv_Cons)
            with r(3) w1(2,3) some show ?thesis by simp
          qed
          ultimately show ?thesis unfolding step Inr by simp
        next
          case (Inl x)
          obtain e w' where x: "x = (e, w')" by (cases x)
          from IH Inl x have r:
            "calls (sockets ?w1 r) < calls (sockets w' r)"
            "list_all (\<lambda>k. accepts_some (os_send (os ?w1) r k))
               [calls (sockets ?w1 r) ..< calls (sockets w' r) - 1]"
            "case os_send (os ?w1) r (calls (sockets w' r) - 1) of
               Accepts n \<Rightarrow> n = 0 \<and> e = RuntimeError ''socket connection broken''
             | Raises e' \<Rightarrow> e = e'"
            "\<exists>k. sofar + ?n + k < length bs \<and>
                 written (sockets w' r) = written (sockets ?w1 r) @ take k (drop (sofar + ?n) bs)"
            by simp_all
          from r(4) obtain k where k: "sofar + ?n + k < length bs"
            "written (sockets w' r) = written (sockets ?w1 r) @ take k (drop (sofar + ?n) bs)"
            by blast
          have "?c < calls (sockets w' r)" using r(1) w1(2) by simp
          moreover have "list_all (\<lambda>k. accepts_some (os_send (os w) r k))
                           [?c ..< calls (sockets w' r) - 1]"
          proof -
            have "[?c ..< calls (sockets w' r) - 1] = ?c # [Suc ?c ..< calls (sockets w' r) - 1]"
              using r(1) w1(2) by (simp add: upt_conv_Cons)
            with r(2) w1(2,3) some show ?thesis by simp
          qed
          moreover have "case os_send (os w) r (calls (sockets w' r) - 1) of
               Accepts n \<Rightarrow> n = 0 \<and> e = RuntimeError ''socket connection broken''
             | Raises e' \<Rightarrow> e = e'"
            using r(3) w1(3) by simp
          moreover have "\<exists>j. sofar + j < length bs \<and>
                 written (sockets w' r) = written (sockets w r) @ take j (drop sofar bs)"
          proof (intro exI conjI)
            show "sofar + (?n + k) < length bs" using k(1) by simp
            have "take (?n + k) (drop sofar bs)
                    = take ?n (drop sofar bs) @ take k (drop ?n (drop sofar bs))"
              by (rule take_add)
            with k(2) w1(1) rest
            show "written (sockets w' r) = written (sockets w r) @ take (?n + k) (drop sofar bs)"
              by simp
          qed
          ultimately show ?thesis unfolding step Inl x by simp
        qed
      qed
    qed
  qed
qed

text \<open>
  C5, as stated, says that \<open>send\<close> issues writes until the accepted bytes add up to
  the length of the payload, unless a write accepts zero bytes. On the non-blocking
  socket of the client a write can also raise: here the send buffer is full at the
  second write, \<open>send\<close> ends with \<open>BlockingIOError\<close> after two of five bytes, and no
  write has accepted zero bytes.
\<close>

theorem send_blocked_counterexample:
  "Client_send (send_msg [''message'' \<mapsto> PyBytes ''hello''])
      (connected, after_connect\<lparr>os := full_buffer\<rparr>)
    = Inl (would_block,
           (connected,
            after_connect\<lparr>sockets := (\<lambda>r. new_sock)
               (0 := \<lparr>written = ''he'', closed = False, calls = 2\<rparr>),
              os := full_buffer\<rparr>))"
  by (simp add: Client_send_def send_msg_def dict_item_def py_len_def send_loop.simps
      connected_def after_connect_def sock_send_def slice_from_def full_buffer_def calm_def
      new_sock_def numeral_2_eq_2)

text \<open>
  C5, amended. Let a connected client send a payload of \<open>L\<close> bytes. The loop always
  ends, in one of three ways. Either \<open>send\<close> returns: then the socket has received the
  whole payload after what it held before, so the accepted bytes add up to \<open>L\<close>, and
  every write issued accepted at least one byte. Or the last write issued accepted
  zero bytes: then \<open>send\<close> raises \<open>RuntimeError('socket connection broken')\<close> at once.
  Or the last write issued raised: then \<open>send\<close> ends with that exception. In the
  last two cases every earlier write accepted at least one byte and fewer than \<open>L\<close>
  bytes of the payload have been written. So \<open>send\<close> never returns having sent less
  than the payload.
\<close>

theorem send_all_or_raise:
  assumes "body m ''message'' = Some (PyBytes out)" and "socket_cl cl = Some r"
    and "\<not> closed (sockets w r)"
  shows "case Client_send m (cl, w) of
           Inr (cl', w') \<Rightarrow>
             cl' = cl \<and>
             written (sockets w' r) = written (sockets w r) @ out \<and>
             list_all (\<lambda>k. accepts_some (os_send (os w) r k))
               [calls (sockets w r) ..< calls (sockets w' r)]
         | Inl (e, (cl', w')) \<Rightarrow>
             calls (sockets w r) < calls (sockets w' r) \<and>
             list_all (\<lambda>k. accepts_some (os_send (os w) r k))
               [calls (sockets w r) ..< calls (sockets w' r) - 1] \<and>
             (case os_send (os w) r (calls (sockets w' r) - 1) of
                Accepts n \<Rightarrow> n = 0 \<and> e = RuntimeError ''socket connection broken''
              | Raises e' \<Rightarrow> e = e') \<and>
             (\<exists>k. k < length out \<and>
                  written (sockets w' r) = written (sockets w r) @ take k out)"
proof -
  have run: "Client_send m (cl, w) =
      (case send_loop cl (PyBytes out) (length out) 0 w of
         Inl (e, w1) \<Rightarrow> Inl (e, (cl, w1))
       | Inr w1 \<Rightarrow> Inr (cl, w1))"
    using assms(1) by (simp add: Client_send_def dict_item_def py_len_def)
  from send_loop_spec [OF assms(2), of w 0 out] assms(3)
  show ?thesis
    unfolding run by (auto split: sum.splits)
qed

theorem send_all_or_raise_witness:
  "Client_send (send_msg [''message'' \<mapsto> PyBytes ''hello'']) (connected, after_connect)
    = Inr (connected,
           after_connect\<lparr>sockets := (\<lambda>r. new_sock)
              (0 := \<lparr>written = ''hello'', closed = False, calls = 2\<rparr>)\<rparr>)"
  using send_all_or_raise [of "send_msg [''message'' \<mapsto> PyBytes ''hello'']" "''hello''"
      connected 0 after_connect]
  by (simp add: Client_send_def send_msg_def dict_item_def py_len_def send_loop.simps
      connected_def after_connect_def sock_send_def slice_from_def calm_def
      new_sock_def numeral_2_eq_2)

section \<open>The names of directives and body fields\<close>

lemma Client_send_reads_message:
  "body m1 ''message'' = body m2 ''message'' \<Longrightarrow> Client_send m1 st = Client_send m2 st"
  by (simp add: Client_send_def dict_item_def)

lemma Client_send_no_message:
  "body m ''message'' = None \<Longrightarrow>
     Client_send m (cl, w) = Inl (KeyError (PyStr ''message''), (cl, w))"
  by (simp add: Client_send_def dict_item_def)

lemma Client_send_at_once:
  assumes "body m ''message'' = Some (PyBytes out)" and "out \<noteq> []"
    and "socket_cl cl = Some r" and "\<not> closed (sockets w r)"
    and "os_send (os w) r (calls (sockets w r)) = Accepts room" and "length out \<le> room"
  shows "Client_send m (cl, w) =
           Inr (cl, w\<lparr>sockets := (sockets w)(r := (sockets w r)
                         \<lparr>written := written (sockets w r) @ out,
                          calls := Suc (calls (sockets w r))\<rparr>)\<rparr>)"
proof -
  have pos: "0 < room" "0 < length out" using assms(2,6) by (cases out; simp)+
  have "send_loop cl (PyBytes out) (length out) 0 w =
          send_loop cl (PyBytes out) (length out) (0 + min room (length out - 0))
            (w\<lparr>sockets := (sockets w)(r := (sockets w r)
                 \<lparr>written := written (sockets w r) @ take (min room (length out - 0)) (drop 0 out),
                  calls := Suc (calls (sockets w r))\<rparr>)\<rparr>)"
    using pos(2) assms(3,4,5) pos(1) by (rule send_loop_step)
  also have "\<dots> = Inr (w\<lparr>sockets := (sockets w)(r := (sockets w r)
                 \<lparr>written := written (sockets w r) @ out,
                  calls := Suc (calls (sockets w r))\<rparr>)\<rparr>)"
    using assms(6) by (simp add: send_loop_done min_absorb2)
  finally show ?thesis
    using assms(1) by (simp add: Client_send_def dict_item_def py_len_def)
qed

lemma Server_deliver_listen:
  "directive m = ''listen'' \<Longrightarrow>
     Server_deliver gen ts m (Server_init inherited handler, w) =
       Some (Server_listen gen m ts (Server_init inherited handler, w))"
  by (simp add: Server_deliver_def Server_init_def)

lemma Server_deliver_respond:
  "directive m = ''respond'' \<Longrightarrow>
     Server_deliver gen ts m (Server_init inherited handler, w) =
       Some (Server_respond m (Server_init inherited handler, w))"
  by (simp add: Server_deliver_def Server_init_def)

text \<open>
  C8, as stated: a message with the directive \<open>'start_listening'\<close> does not start the
  server (the routing table has no entry for it, nor for \<open>'send'\<close> and \<open>'close'\<close>), an
  accepted connection is not delivered under \<open>'handle_connection'\<close>, and a client's
  \<open>send\<close> given a body with the field \<open>'bytes'\<close> alone raises \<open>KeyError('message')\<close>.
\<close>

theorem directive_names_counterexample:
  "message_routing (Server_init Map.empty (Some ''handler'')) ''start_listening'' = None \<and>
   Server_deliver (\<lambda>k. k) two_accepts (listen_msg\<lparr>directive := ''start_listening''\<rparr>)
       (Server_init Map.empty (Some ''handler''), world0) = None \<and>
   Server_deliver (\<lambda>k. k) two_accepts ((reply 0 ''OK'')\<lparr>directive := ''send''\<rparr>) one_accepted = None \<and>
   Server_deliver (\<lambda>k. k) two_accepts ((reply 0 ''OK'')\<lparr>directive := ''close''\<rparr>) one_accepted = None \<and>
   map (\<lambda>p. directive (snd p)) (sent (snd one_accepted)) = [''handle_request''] \<and>
   Client_send (send_msg [''bytes'' \<mapsto> PyBytes ''hello'']) (connected, after_connect)
     = Inl (KeyError (PyStr ''message''), (connected, after_connect))"
  by (simp add: Server_deliver_def Server_init_def listen_msg_def reply_def one_accepted_eq
      Client_send_def send_msg_def dict_item_def)

text \<open>
  C8, amended. The server is started by a \<open>'listen'\<close> message and routes \<open>'respond'\<close>:
  its routing table maps these directives to \<open>Server.listen\<close> and \<open>Server.respond\<close>,
  which a message with the directive runs.
  It delivers each accepted connection to the handler under the directive
  \<open>'handle_request'\<close>, in the body field \<open>'request'\<close>. The client's \<open>send\<close> reads its
  payload from the body field \<open>'message'\<close>: its outcome depends on the body through
  that field only, without the field it raises \<open>KeyError('message')\<close>, and the bytes
  of the field are what is written to the socket (shown for a payload that the
  operating system accepts in one write).
\<close>

theorem directive_names:
  "message_routing (Server_init inherited handler) ''listen'' = Some Listen \<and>
   message_routing (Server_init inherited handler) ''respond'' = Some Respond \<and>
   (directive m = ''listen'' \<longrightarrow>
      Server_deliver gen ts m (Server_init inherited handler, w) =
        Some (Server_listen gen m ts (Server_init inherited handler, w))) \<and>
   (directive m = ''respond'' \<longrightarrow>
      Server_deliver gen ts m (Server_init inherited handler, w) =
        Some (Server_respond m (Server_init inherited handler, w))) \<and>
   (pending t = Some a \<longrightarrow>
      sent (snd (listen_iter gen t (srv, w))) =
        sent w @ [(gen (minted w),
                   \<lparr>to = request_handler srv, directive = ''handle_request'',
                    body = [''request'' \<mapsto> PyConn (allocated w) a],
                    in_reply_to = None\<rparr>)]) \<and>
   (body m1 ''message'' = body m2 ''message'' \<longrightarrow>
      Client_send m1 (cl, wc) = Client_send m2 (cl, wc)) \<and>
   (body m1 ''message'' = None \<longrightarrow>
      Client_send m1 (cl, wc) = Inl (KeyError (PyStr ''message''), (cl, wc))) \<and>
   (body m1 ''message'' = Some (PyBytes out) \<and> out \<noteq> [] \<and> socket_cl cl = Some r \<and>
    \<not> closed (sockets wc r) \<and>
    os_send (os wc) r (calls (sockets wc r)) = Accepts room \<and> length out \<le> room \<longrightarrow>
      Client_send m1 (cl, wc) =
        Inr (cl, wc\<lparr>sockets := (sockets wc)(r := (sockets wc r)
                       \<lparr>written := written (sockets wc r) @ out,
                        calls := Suc (calls (sockets wc r))\<rparr>)\<rparr>))"
  using Client_send_reads_message [of m1 m2 "(cl, wc)"]
    Client_send_no_message [of m1 cl wc]
    Client_send_at_once [of m1 out cl r wc room]
    Server_deliver_listen [of m gen ts inherited handler w]
    Server_deliver_respond [of m gen ts inherited handler w]
  by (simp add: listen_iter_accept Server_init_def)

theorem directive_names_witness:
  "message_routing (Server_init Map.empty (Some ''handler'')) ''listen'' = Some Listen \<and>
   message_routing (Server_init Map.empty (Some ''handler'')) ''respond'' = Some Respond \<and>
   Server_deliver (\<lambda>k. k) two_accepts listen_msg (Server_init Map.empty (Some ''handler''), world0)
     = Some (Server_listen (\<lambda>k. k) listen_msg two_accepts
               (Server_init Map.empty (Some ''handler''), world0)) \<and>
   sent (snd (listen_iter (\<lambda>k. k) \<lparr>pending = Some (''10.0.0.7'', 4000), yielded = 1\<rparr>
                (Server_init Map.empty (Some ''handler''), world0))) =
     [(0, \<lparr>to = Some ''handler'', directive = ''handle_request'',
            body = [''request'' \<mapsto> PyConn 0 (''10.0.0.7'', 4000)], in_reply_to = None\<rparr>)] \<and>
   Client_send (send_msg [''message'' \<mapsto> PyBytes ''hi'', ''bytes'' \<mapsto> PyBytes ''other''])
       (connected, after_connect)
     = Client_send (send_msg [''message'' \<mapsto> PyBytes ''hi'']) (connected, after_connect) \<and>
   Client_send (send_msg [''message'' \<mapsto> PyBytes ''hi'', ''bytes'' \<mapsto> PyBytes ''other''])
       (connected, after_connect)
     = Inr (connected,
            after_connect\<lparr>sockets := (\<lambda>r. new_sock)
               (0 := \<lparr>written = ''hi'', closed = False, calls = 1\<rparr>)\<rparr>)"
proof -
  let ?m1 = "send_msg [''message'' \<mapsto> PyBytes ''hi'', ''bytes'' \<mapsto> PyBytes ''other'']"
  let ?m2 = "send_msg [''message'' \<mapsto> PyBytes ''hi'']"
  let ?t = "\<lparr>pending = Some (''10.0.0.7'', 4000), yielded = 1\<rparr>"
  let ?srv = "Server_init Map.empty (Some ''handler'')"
  note d = directive_names [where m = listen_msg and gen = "\<lambda>k. k" and ts = two_accepts
      and inherited = Map.empty and handler = "Some ''handler''" and w = world0
      and t = ?t and a = "(''10.0.0.7'', 4000)" and srv = ?srv
      and ?m1.0 = ?m1 and ?m2.0 = ?m2
      and cl = connected and wc = after_connect and out = "''hi''" and r = 0 and room = 2]
  have h1: "directive listen_msg = ''listen''"
    by (simp add: listen_msg_def)
  have h3: "pending ?t = Some (''10.0.0.7'', 4000)"
    by simp
  have h4: "body ?m1 ''message'' = body ?m2 ''message''"
    by (simp add: send_msg_def)
  have h6: "body ?m1 ''message'' = Some (PyBytes ''hi'') \<and> ''hi'' \<noteq> [] \<and>
      socket_cl connected = Some 0 \<and> \<not> closed (sockets after_connect 0) \<and>
      os_send (os after_connect) 0 (calls (sockets after_connect 0)) = Accepts 2 \<and>
      length ''hi'' \<le> 2"
    by (simp add: send_msg_def connected_def after_connect_def new_sock_def calm_def)
  from d h1 have c1:
    "Server_deliver (\<lambda>k. k) two_accepts listen_msg (?srv, world0)
       = Some (Server_listen (\<lambda>k. k) listen_msg two_accepts (?srv, world0))"
    by blast
  from d h3 have "sent (snd (listen_iter (\<lambda>k. k) ?t (?srv, world0))) =
      sent world0 @ [(minted world0,
                   \<lparr>to = request_handler ?srv, directive = ''handle_request'',
                    body = [''request'' \<mapsto> PyConn (allocated world0) (''10.0.0.7'', 4000)],
                    in_reply_to = None\<rparr>)]"
    by blast
  then have c3: "sent (snd (listen_iter (\<lambda>k. k) ?t (?srv, world0))) =
     [(0, \<lparr>to = Some ''handler'', directive = ''handle_request'',
            body = [''request'' \<mapsto> PyConn 0 (''10.0.0.7'', 4000)], in_reply_to = None\<rparr>)]"
    by (simp add: world0_def Server_init_def)
  from d h4 have c4: "Client_send ?m1 (connected, after_connect)
      = Client_send ?m2 (connected, after_connect)"
    by blast
  from d h6 have "Client_send ?m1 (connected, after_connect) =
      Inr (connected, after_connect\<lparr>sockets := (sockets after_connect)(0 := (sockets after_connect 0)
                       \<lparr>written := written (sockets after_connect 0) @ ''hi'',
                        calls := Suc (calls (sockets after_connect 0))\<rparr>)\<rparr>)"
    by blast
  then have c6: "Client_send ?m1 (connected, after_connect) =
      Inr (connected,
            after_connect\<lparr>sockets := (\<lambda>r. new_sock)
               (0 := \<lparr>written = ''hi'', closed = False, calls = 1\<rparr>)\<rparr>)"
    by (simp add: after_connect_def new_sock_def)
  from d have c0:
    "message_routing ?srv ''listen'' = Some Listen \<and>
     message_routing ?srv ''respond'' = Some Respond"
    by blast
  from c0 c1 c3 c4 c6 show ?thesis by blast
qed

end
